theory Spec2Isabelle
  imports Main "HOL-Library.Word"
begin

section \<open>The filesystem test wrappers (wrappers.py)\<close>

text \<open>
  The module drives a C filesystem through ctypes. The C structures are mirrored by
  ctypes classes; every field has a fixed width, and ctypes stores a Python integer
  into a field without overflow checking (the value is reduced to the width of the
  field). The arenas of the filesystem are reached through ctypes pointers, whose
  indexing is plain pointer arithmetic without any bounds check, while the arrays
  inside a structure (\<open>direct_blocks\<close>, \<open>block\<close>) are ctypes arrays, whose
  indexing is checked and counts a negative index from the end.
\<close>

subsection \<open>Constants\<close>

definition BLOCK_SIZE :: nat where
  "BLOCK_SIZE = 1024"

definition NAME_MAX_LENGTH :: nat where
  "NAME_MAX_LENGTH = 32"

definition DIRECT_BLOCKS_COUNT :: nat where
  "DIRECT_BLOCKS_COUNT = 12"

subsection \<open>Errors and outcomes\<close>

text \<open>
  Every way a call can end without returning. \<open>AssertionError n\<close> is the failure of the
  \<open>assert\<close> on line \<open>n\<close> of wrappers.py; the interpreter runs as it does by
  default, with assertions executed. \<open>MemoryFault\<close> stands for an access through
  a ctypes pointer outside the arena it points to: the behaviour of the real program is
  undefined there, and the model stops.
\<close>

datatype error =
    SystemExit
  | AssertionError nat
  | AttributeError
  | IndexError
  | LookupError
  | ValueError
  | UnicodeEncodeError
  | UnicodeDecodeError
  | MemoryFault

subsection \<open>The ctypes structures\<close>

datatype NodeType = reg_file | directory | free_block

fun node_int :: "NodeType \<Rightarrow> int" where
  "node_int reg_file = 1"
| "node_int directory = 2"
| "node_int free_block = 3"

text \<open>\<open>DataBlock\<close>: \<open>size\<close> is a \<open>c_size_t\<close> (64 bits), \<open>block\<close> is \<open>c_uint8 * 1024\<close>.\<close>

record DataBlock =
  size_blk :: "64 word"
  block :: "8 word list"

text \<open>
  \<open>Inode\<close>: \<open>n_type\<close> and \<open>parent\<close> are \<open>c_int\<close>, \<open>size\<close> is a \<open>c_uint16\<close>,
  \<open>name\<close> is \<open>c_char * 32\<close> and \<open>direct_blocks\<close> is \<open>c_int * 12\<close>. A signed field is
  read with \<open>sint\<close>.
\<close>

record Inode =
  n_type :: "32 word"
  size_ino :: "16 word"
  name :: "8 word list"
  direct_blocks :: "32 word list"
  parent :: "32 word"

record Superblock =
  num_blocks :: "32 word"
  free_blocks :: "32 word"

text \<open>
  \<open>FileSystem\<close>: the four pointers are modelled by what they point to. \<open>s_block\<close> is
  only ever read at index 0.
\<close>

record FileSystem =
  s_block :: Superblock
  free_list :: "8 word list"
  inodes :: "Inode list"
  data_blocks :: "DataBlock list"
  root_node :: "32 word"

text \<open>
  A call either raises, leaving the filesystem as it was mutated so far, or returns a
  value and the filesystem it leaves behind.
\<close>

datatype 'a outcome = Raised error FileSystem | Returned 'a FileSystem

fun seq :: "unit outcome \<Rightarrow> (FileSystem \<Rightarrow> 'a outcome) \<Rightarrow> 'a outcome" where
  "seq (Raised e fs) f = Raised e fs"
| "seq (Returned u fs) f = f fs"

subsection \<open>Indexing\<close>

text \<open>A ctypes pointer: \<open>p[i]\<close> is the element at offset \<open>i\<close>, unchecked.\<close>

definition in_arena :: "'a list \<Rightarrow> int \<Rightarrow> bool" where
  "in_arena xs i = (0 \<le> i \<and> i < int (length xs))"

definition ptr_get :: "'a list \<Rightarrow> int \<Rightarrow> error + 'a" where
  "ptr_get xs i = (if in_arena xs i then Inr (xs ! nat i) else Inl MemoryFault)"

text \<open>
  A ctypes array of \<open>n\<close> elements: a negative index has \<open>n\<close> added to it, and the
  result must lie in \<open>0 .. n - 1\<close>, else IndexError.
\<close>

definition arr_index :: "nat \<Rightarrow> int \<Rightarrow> error + nat" where
  "arr_index n i =
     (let j = (if i < 0 then i + int n else i)
      in if 0 \<le> j \<and> j < int n then Inr (nat j) else Inl IndexError)"

definition arr_get :: "'a list \<Rightarrow> int \<Rightarrow> error + 'a" where
  "arr_get xs i = (case arr_index (length xs) i of Inl e \<Rightarrow> Inl e | Inr k \<Rightarrow> Inr (xs ! k))"

text \<open>A Python list read at a non-negative index.\<close>

definition list_get :: "'a list \<Rightarrow> nat \<Rightarrow> error + 'a" where
  "list_get xs i = (if i < length xs then Inr (xs ! i) else Inl IndexError)"

subsection \<open>Single assignments\<close>

text \<open>\<open>fs.data_blocks[block_num].size = v\<close>\<close>

definition set_block_size :: "int \<Rightarrow> int \<Rightarrow> FileSystem \<Rightarrow> unit outcome" where
  "set_block_size block_num v fs =
     (case ptr_get (data_blocks fs) block_num of
        Inl e \<Rightarrow> Raised e fs
      | Inr d \<Rightarrow> Returned ()
          (fs\<lparr>data_blocks := (data_blocks fs)[nat block_num := d\<lparr>size_blk := word_of_int v\<rparr>]\<rparr>))"

text \<open>\<open>fs.data_blocks[block_num].block[i] = v\<close>\<close>

definition set_block_byte :: "int \<Rightarrow> nat \<Rightarrow> int \<Rightarrow> FileSystem \<Rightarrow> unit outcome" where
  "set_block_byte block_num i v fs =
     (case ptr_get (data_blocks fs) block_num of
        Inl e \<Rightarrow> Raised e fs
      | Inr d \<Rightarrow>
          (case arr_index (length (block d)) (int i) of
             Inl e \<Rightarrow> Raised e fs
           | Inr k \<Rightarrow> Returned ()
               (fs\<lparr>data_blocks := (data_blocks fs)[nat block_num :=
                      d\<lparr>block := (block d)[k := word_of_int v]\<rparr>]\<rparr>)))"

text \<open>\<open>fs.inodes[inode].direct_blocks[slot] = v\<close>\<close>

definition set_direct_block :: "int \<Rightarrow> int \<Rightarrow> int \<Rightarrow> FileSystem \<Rightarrow> unit outcome" where
  "set_direct_block inode slot v fs =
     (case ptr_get (inodes fs) inode of
        Inl e \<Rightarrow> Raised e fs
      | Inr ino \<Rightarrow>
          (case arr_index (length (direct_blocks ino)) slot of
             Inl e \<Rightarrow> Raised e fs
           | Inr k \<Rightarrow> Returned ()
               (fs\<lparr>inodes := (inodes fs)[nat inode :=
                      ino\<lparr>direct_blocks := (direct_blocks ino)[k := word_of_int v]\<rparr>]\<rparr>)))"

text \<open>\<open>fs.inodes[inode].size = v\<close>\<close>

definition set_inode_size :: "int \<Rightarrow> int \<Rightarrow> FileSystem \<Rightarrow> unit outcome" where
  "set_inode_size inode v fs =
     (case ptr_get (inodes fs) inode of
        Inl e \<Rightarrow> Raised e fs
      | Inr ino \<Rightarrow> Returned ()
          (fs\<lparr>inodes := (inodes fs)[nat inode := ino\<lparr>size_ino := word_of_int v\<rparr>]\<rparr>))"

text \<open>\<open>fs.free_list[block_num] = v\<close>\<close>

definition set_free_list :: "int \<Rightarrow> int \<Rightarrow> FileSystem \<Rightarrow> unit outcome" where
  "set_free_list block_num v fs =
     (if in_arena (free_list fs) block_num
      then Returned () (fs\<lparr>free_list := (free_list fs)[nat block_num := word_of_int v]\<rparr>)
      else Raised MemoryFault fs)"

subsection \<open>set_data_block\<close>

text \<open>
  Lines 212-213: \<open>for i in range(data_size): fs.data_blocks[block_num].block[i] = data[i]\<close>.
  The right-hand side is evaluated first, so a payload shorter than \<open>data_size\<close> raises
  IndexError after the bytes before it were written.
\<close>

fun copy_data :: "int \<Rightarrow> int list \<Rightarrow> nat list \<Rightarrow> FileSystem \<Rightarrow> unit outcome" where
  "copy_data block_num data [] fs = Returned () fs"
| "copy_data block_num data (i # rest) fs =
     (case list_get data i of
        Inl e \<Rightarrow> Raised e fs
      | Inr v \<Rightarrow> seq (set_block_byte block_num i v fs) (copy_data block_num data rest))"

text \<open>
  Lines 219-225: the \<open>while True\<close> loop that adds up the sizes of the blocks the owner
  points to, from slot \<open>i\<close> on. It ends at the first slot that holds -1; when no slot
  does, \<open>direct_blocks[12]\<close> raises IndexError.
\<close>

function size_loop :: "int \<Rightarrow> nat \<Rightarrow> FileSystem \<Rightarrow> unit outcome" where
  "size_loop parent_inode i fs =
     (case ptr_get (inodes fs) parent_inode of
        Inl e \<Rightarrow> Raised e fs
      | Inr ino \<Rightarrow>
          (case arr_get (direct_blocks ino) (int i) of
             Inl e \<Rightarrow> Raised e fs
           | Inr p \<Rightarrow>
               if sint p \<noteq> - 1 then
                 (case ptr_get (data_blocks fs) (sint p) of
                    Inl e \<Rightarrow> Raised e fs
                  | Inr d \<Rightarrow>
                      size_loop parent_inode (i + 1)
                        (fs\<lparr>inodes := (inodes fs)[nat parent_inode :=
                               ino\<lparr>size_ino :=
                                 word_of_int (uint (size_ino ino) + uint (size_blk d))\<rparr>]\<rparr>))
               else Returned () fs))"
  by pat_completeness auto
termination
proof (relation "measure (\<lambda>(p, i, fs).
    (case ptr_get (inodes fs) p of Inl e \<Rightarrow> 0 | Inr ino \<Rightarrow> length (direct_blocks ino) - i))")
  show "wf (measure (\<lambda>(p, i, fs).
    (case ptr_get (inodes fs) p of Inl e \<Rightarrow> 0 | Inr ino \<Rightarrow> length (direct_blocks ino) - i)))"
    by simp
next
  fix parent_inode :: int and i :: nat and fs :: FileSystem
    and ino :: Inode and p :: "32 word" and d :: DataBlock
  assume a: "ptr_get (inodes fs) parent_inode = Inr ino"
    and b: "arr_get (direct_blocks ino) (int i) = Inr p"
  from a have r: "in_arena (inodes fs) parent_inode" and e: "ino = inodes fs ! nat parent_inode"
    by (auto simp: ptr_get_def split: if_splits)
  from b have l: "i < length (direct_blocks ino)"
    by (auto simp: arr_get_def arr_index_def Let_def split: if_splits sum.splits)
  from r have n: "nat parent_inode < length (inodes fs)"
    by (auto simp: in_arena_def)
  show "((parent_inode, i + 1,
          fs\<lparr>inodes := (inodes fs)[nat parent_inode :=
                ino\<lparr>size_ino := word_of_int (uint (size_ino ino) + uint (size_blk d))\<rparr>]\<rparr>),
         (parent_inode, i, fs))
        \<in> measure (\<lambda>(p, i, fs).
            (case ptr_get (inodes fs) p of Inl e \<Rightarrow> 0 | Inr ino \<Rightarrow> length (direct_blocks ino) - i))"
    using r l n a by (simp add: ptr_get_def in_arena_def)
qed

text \<open>
  Lines 207-229. \<open>exit()\<close> raises SystemExit. The last assignment stores
  \<open>free_blocks - 1\<close> into a \<open>c_uint32\<close>.
\<close>

definition set_data_block ::
  "int \<Rightarrow> int list \<Rightarrow> int \<Rightarrow> int \<Rightarrow> int \<Rightarrow> FileSystem \<Rightarrow> unit outcome" where
  "set_data_block block_num data data_size parent_inode parent_block_num fs =
     (if data_size > 1024 then Raised SystemExit fs
      else
        seq (set_block_size block_num data_size fs) (\<lambda>fs.
        seq (copy_data block_num data [0..<nat data_size] fs) (\<lambda>fs.
        seq (set_direct_block parent_inode parent_block_num block_num fs) (\<lambda>fs.
        seq (set_inode_size parent_inode 0 fs) (\<lambda>fs.
        seq (size_loop parent_inode 0 fs) (\<lambda>fs.
        seq (set_free_list block_num 0 fs) (\<lambda>fs.
        Returned () (fs\<lparr>s_block := (s_block fs)\<lparr>free_blocks :=
          word_of_int (uint (free_blocks (s_block fs)) - 1)\<rparr>\<rparr>))))))))"

subsection \<open>Names\<close>

text \<open>
  A Python \<open>str\<close> is a sequence of code points; \<open>len\<close> counts them.
  \<open>bytes(s, "utf-8")\<close> encodes each code point in one to four bytes and refuses the
  surrogates; \<open>b.decode("utf-8")\<close> accepts exactly the encodings of the other code
  points up to 1114111.
\<close>

type_synonym str = "nat list"

definition utf8_char :: "nat \<Rightarrow> error + 8 word list" where
  "utf8_char c =
     (if c < 128 then Inr [of_nat c]
      else if c < 2048 then Inr [of_nat (192 + c div 64), of_nat (128 + c mod 64)]
      else if 55296 \<le> c \<and> c < 57344 then Inl UnicodeEncodeError
      else if c < 65536 then
        Inr [of_nat (224 + c div 4096), of_nat (128 + c div 64 mod 64), of_nat (128 + c mod 64)]
      else
        Inr [of_nat (240 + c div 262144), of_nat (128 + c div 4096 mod 64),
             of_nat (128 + c div 64 mod 64), of_nat (128 + c mod 64)])"

fun utf8_encode :: "str \<Rightarrow> error + 8 word list" where
  "utf8_encode [] = Inr []"
| "utf8_encode (c # cs) =
     (case utf8_char c of
        Inl e \<Rightarrow> Inl e
      | Inr bs \<Rightarrow> (case utf8_encode cs of Inl e \<Rightarrow> Inl e | Inr rest \<Rightarrow> Inr (bs @ rest)))"

definition cont :: "8 word \<Rightarrow> bool" where
  "cont b = (128 \<le> unat b \<and> unat b < 192)"

definition push :: "nat \<Rightarrow> error + str \<Rightarrow> error + str" where
  "push c r = (case r of Inl e \<Rightarrow> Inl e | Inr cs \<Rightarrow> Inr (c # cs))"

fun utf8_decode :: "8 word list \<Rightarrow> error + str" where
  "utf8_decode [] = Inr []"
| "utf8_decode (b # bs) =
     (if unat b < 128 then push (unat b) (utf8_decode bs)
      else if 194 \<le> unat b \<and> unat b < 224 then
        (case bs of
           b1 # r \<Rightarrow>
             if cont b1 then push ((unat b - 192) * 64 + (unat b1 - 128)) (utf8_decode r)
             else Inl UnicodeDecodeError
         | _ \<Rightarrow> Inl UnicodeDecodeError)
      else if 224 \<le> unat b \<and> unat b < 240 then
        (case bs of
           b1 # b2 # r \<Rightarrow>
             if cont b1 \<and> cont b2
                \<and> 2048 \<le> (unat b - 224) * 4096 + (unat b1 - 128) * 64 + (unat b2 - 128)
                \<and> \<not> (55296 \<le> (unat b - 224) * 4096 + (unat b1 - 128) * 64 + (unat b2 - 128)
                     \<and> (unat b - 224) * 4096 + (unat b1 - 128) * 64 + (unat b2 - 128) < 57344)
             then push ((unat b - 224) * 4096 + (unat b1 - 128) * 64 + (unat b2 - 128))
                    (utf8_decode r)
             else Inl UnicodeDecodeError
         | _ \<Rightarrow> Inl UnicodeDecodeError)
      else if 240 \<le> unat b \<and> unat b < 245 then
        (case bs of
           b1 # b2 # b3 # r \<Rightarrow>
             if cont b1 \<and> cont b2 \<and> cont b3
                \<and> 65536 \<le> (unat b - 240) * 262144 + (unat b1 - 128) * 4096
                            + (unat b2 - 128) * 64 + (unat b3 - 128)
                \<and> (unat b - 240) * 262144 + (unat b1 - 128) * 4096
                     + (unat b2 - 128) * 64 + (unat b3 - 128) < 1114112
             then push ((unat b - 240) * 262144 + (unat b1 - 128) * 4096
                        + (unat b2 - 128) * 64 + (unat b3 - 128)) (utf8_decode r)
             else Inl UnicodeDecodeError
         | _ \<Rightarrow> Inl UnicodeDecodeError)
      else Inl UnicodeDecodeError)"

text \<open>
  A \<open>c_char * n\<close> field. Storing \<open>bytes\<close> cuts the value at its first NUL, refuses more
  than \<open>n\<close> bytes, and copies the bytes and, where there is room, one NUL behind them; the
  rest of the field keeps what it held. Reading gives the bytes before the first NUL.
\<close>

definition s_set :: "8 word list \<Rightarrow> 8 word list \<Rightarrow> error + 8 word list" where
  "s_set field v =
     (let size = length (takeWhile (\<lambda>b. b \<noteq> 0) v); n = length field
      in if size > n then Inl ValueError
         else if size < n then Inr (take size v @ [0] @ drop (size + 1) field)
         else Inr (take size v))"

definition s_get :: "8 word list \<Rightarrow> 8 word list" where
  "s_get field = takeWhile (\<lambda>b. b \<noteq> 0) field"

subsection \<open>More single assignments\<close>

text \<open>\<open>fs.inodes[inode].n_type = v\<close>\<close>

definition set_n_type :: "int \<Rightarrow> int \<Rightarrow> FileSystem \<Rightarrow> unit outcome" where
  "set_n_type inode v fs =
     (case ptr_get (inodes fs) inode of
        Inl e \<Rightarrow> Raised e fs
      | Inr ino \<Rightarrow> Returned ()
          (fs\<lparr>inodes := (inodes fs)[nat inode := ino\<lparr>n_type := word_of_int v\<rparr>]\<rparr>))"

text \<open>\<open>fs.inodes[inode].name = bytes(s, "utf-8")\<close>\<close>

definition set_name :: "int \<Rightarrow> str \<Rightarrow> FileSystem \<Rightarrow> unit outcome" where
  "set_name inode s fs =
     (case utf8_encode s of
        Inl e \<Rightarrow> Raised e fs
      | Inr bs \<Rightarrow>
          (case ptr_get (inodes fs) inode of
             Inl e \<Rightarrow> Raised e fs
           | Inr ino \<Rightarrow>
               (case s_set (name ino) bs of
                  Inl e \<Rightarrow> Raised e fs
                | Inr field \<Rightarrow> Returned ()
                    (fs\<lparr>inodes := (inodes fs)[nat inode := ino\<lparr>name := field\<rparr>]\<rparr>))))"

text \<open>\<open>fs.inodes[inode].parent = v\<close>\<close>

definition set_parent :: "int \<Rightarrow> int \<Rightarrow> FileSystem \<Rightarrow> unit outcome" where
  "set_parent inode v fs =
     (case ptr_get (inodes fs) inode of
        Inl e \<Rightarrow> Raised e fs
      | Inr ino \<Rightarrow> Returned ()
          (fs\<lparr>inodes := (inodes fs)[nat inode := ino\<lparr>parent := word_of_int v\<rparr>]\<rparr>))"

subsection \<open>TInode\<close>

text \<open>
  The attributes of a \<open>TInode\<close> object. The class body only annotates \<open>idx\<close>, so the
  attribute exists once it was assigned: \<open>t_idx = None\<close> is an object without it, and
  reading it there raises AttributeError.
\<close>

record TInode =
  t_name :: str
  t_n_type :: NodeType
  t_parent :: int
  t_blocks :: "int list"
  t_idx :: "int option"

text \<open>The default of the parameter \<open>blocks\<close>: \<open>[0] * 12\<close>.\<close>

definition default_blocks :: "int list" where
  "default_blocks = replicate 12 0"

text \<open>
  Lines 97-117, \<open>TInode.__init__\<close>. On line 116 the conjunction is evaluated left to
  right: \<open>idx > 0\<close> false fails the assertion; otherwise \<open>fs.s_block[0].num_block\<close> is
  read, and \<open>Superblock\<close> has no field of that name (its fields are \<open>num_blocks\<close> and
  \<open>free_blocks\<close>).
\<close>

definition TInode_init ::
  "FileSystem \<Rightarrow> str \<Rightarrow> NodeType \<Rightarrow> int \<Rightarrow> int option \<Rightarrow> int list \<Rightarrow> error + TInode" where
  "TInode_init fs nm ty par idx blocks =
     (if length nm \<noteq> 32 then Inl (AssertionError 106)
      else if \<not> (par > 0 \<and> par < uint (num_blocks (s_block fs))) then Inl (AssertionError 109)
      else
        (case ptr_get (inodes fs) par of
           Inl e \<Rightarrow> Inl e
         | Inr p \<Rightarrow>
             if sint (n_type p) \<noteq> node_int directory then Inl (AssertionError 110)
             else if \<not> (length blocks \<le> DIRECT_BLOCKS_COUNT) then Inl (AssertionError 112)
             else
               (case idx of
                  None \<Rightarrow> Inr \<lparr>t_name = nm, t_n_type = ty, t_parent = par,
                     t_blocks = blocks @ replicate (DIRECT_BLOCKS_COUNT - length blocks) (- 1),
                     t_idx = None\<rparr>
                | Some i \<Rightarrow>
                    if i > 0 then Inl AttributeError else Inl (AssertionError 116))))"

text \<open>Lines 139-142, \<open>pin\<close>.\<close>

definition pin :: "TInode \<Rightarrow> int \<Rightarrow> error + TInode" where
  "pin self idx = (if idx > 0 then Inr (self\<lparr>t_idx := Some idx\<rparr>) else Inl (AssertionError 141))"

subsection \<open>check\<close>

text \<open>
  Lines 161-163: \<open>any(fs.inodes[fs.inodes[self.idx].parent].direct_blocks[i] == self.idx
  for i in range(12))\<close>, which stops at the first slot that matches.
\<close>

fun any_parent_slot :: "FileSystem \<Rightarrow> int \<Rightarrow> nat list \<Rightarrow> error + bool" where
  "any_parent_slot fs idx [] = Inr False"
| "any_parent_slot fs idx (i # rest) =
     (case ptr_get (inodes fs) idx of
        Inl e \<Rightarrow> Inl e
      | Inr ino \<Rightarrow>
          (case ptr_get (inodes fs) (sint (parent ino)) of
             Inl e \<Rightarrow> Inl e
           | Inr par \<Rightarrow>
               (case arr_get (direct_blocks par) (int i) of
                  Inl e \<Rightarrow> Inl e
                | Inr p \<Rightarrow> if sint p = idx then Inr True else any_parent_slot fs idx rest)))"

text \<open>
  Lines 164-169: \<open>all(fs.inodes[block].parent == self.idx)\<close> over \<open>block =
  fs.inodes[self.idx].direct_blocks[d]\<close> for \<open>d in range(12)\<close>, which stops at the first
  slot that fails. Every slot is looked up as an inode, whatever it holds.
\<close>

fun all_children :: "FileSystem \<Rightarrow> int \<Rightarrow> nat list \<Rightarrow> error + bool" where
  "all_children fs idx [] = Inr True"
| "all_children fs idx (d # rest) =
     (case ptr_get (inodes fs) idx of
        Inl e \<Rightarrow> Inl e
      | Inr ino \<Rightarrow>
          (case arr_get (direct_blocks ino) (int d) of
             Inl e \<Rightarrow> Inl e
           | Inr blk \<Rightarrow>
               (case ptr_get (inodes fs) (sint blk) of
                  Inl e \<Rightarrow> Inl e
                | Inr child \<Rightarrow>
                    if sint (parent child) = idx then all_children fs idx rest else Inr False)))"

text \<open>
  Line 172: \<open>all(fs.inodes[self.idx].direct_blocks[i] == self.blocks[i] for i in
  range(12))\<close>.
\<close>

fun all_blocks :: "FileSystem \<Rightarrow> int \<Rightarrow> int list \<Rightarrow> nat list \<Rightarrow> error + bool" where
  "all_blocks fs idx blocks [] = Inr True"
| "all_blocks fs idx blocks (i # rest) =
     (case ptr_get (inodes fs) idx of
        Inl e \<Rightarrow> Inl e
      | Inr ino \<Rightarrow>
          (case arr_get (direct_blocks ino) (int i) of
             Inl e \<Rightarrow> Inl e
           | Inr p \<Rightarrow>
               (case list_get blocks i of
                  Inl e \<Rightarrow> Inl e
                | Inr v \<Rightarrow> if sint p = v then all_blocks fs idx blocks rest else Inr False)))"

text \<open>Lines 159-169, the part under \<open>if check_parents\<close>.\<close>

definition check_links :: "FileSystem \<Rightarrow> int \<Rightarrow> error + unit" where
  "check_links fs idx =
     (case any_parent_slot fs idx [0..<DIRECT_BLOCKS_COUNT] of
        Inl e \<Rightarrow> Inl e
      | Inr False \<Rightarrow> Inl (AssertionError 161)
      | Inr True \<Rightarrow>
          (case all_children fs idx [0..<DIRECT_BLOCKS_COUNT] of
             Inl e \<Rightarrow> Inl e
           | Inr False \<Rightarrow> Inl (AssertionError 164)
           | Inr True \<Rightarrow> Inr ()))"

text \<open>
  Lines 144-172, \<open>TInode.check\<close>. Line 147 reads \<open>self.idx\<close> first; an object that has
  the attribute holds an integer in it, so lines 149-151 change nothing and the parameter
  \<open>idx\<close> is never used.
\<close>

definition check :: "TInode \<Rightarrow> FileSystem \<Rightarrow> int option \<Rightarrow> bool \<Rightarrow> error + unit" where
  "check self fs idx check_parents =
     (case t_idx self of
        None \<Rightarrow> Inl AttributeError
      | Some i \<Rightarrow>
          if \<not> (i > 0 \<and> i < uint (num_blocks (s_block fs))) then Inl (AssertionError 152)
          else
            (case ptr_get (inodes fs) i of
               Inl e \<Rightarrow> Inl e
             | Inr ino \<Rightarrow>
                 (case utf8_decode (s_get (name ino)) of
                    Inl e \<Rightarrow> Inl e
                  | Inr s \<Rightarrow>
                      if s \<noteq> t_name self then Inl (AssertionError 155)
                      else if sint (n_type ino) \<noteq> node_int (t_n_type self)
                        then Inl (AssertionError 156)
                      else if sint (parent ino) \<noteq> t_parent self then Inl (AssertionError 157)
                      else
                        (case (if check_parents then check_links fs i else Inr ()) of
                           Inl e \<Rightarrow> Inl e
                         | Inr u \<Rightarrow>
                             (case all_blocks fs i (t_blocks self) [0..<DIRECT_BLOCKS_COUNT] of
                                Inl e \<Rightarrow> Inl e
                              | Inr False \<Rightarrow> Inl (AssertionError 172)
                              | Inr True \<Rightarrow> Inr ())))))"

subsection \<open>mkdir\<close>

text \<open>
  Lines 184-187: the scan of the parent's slots in ascending order for the first one
  that holds -1.
\<close>

fun find_empty :: "int \<Rightarrow> nat list \<Rightarrow> FileSystem \<Rightarrow> error + nat option" where
  "find_empty par [] fs = Inr None"
| "find_empty par (i # rest) fs =
     (case ptr_get (inodes fs) par of
        Inl e \<Rightarrow> Inl e
      | Inr p \<Rightarrow>
          (case arr_get (direct_blocks p) (int i) of
             Inl e \<Rightarrow> Inl e
           | Inr v \<Rightarrow> if sint v = - 1 then Inr (Some i) else find_empty par rest fs))"

text \<open>Lines 181-190.\<close>

definition choose_slot :: "int \<Rightarrow> int option \<Rightarrow> FileSystem \<Rightarrow> error + int" where
  "choose_slot par parent_direct_block fs =
     (case parent_direct_block of
        Some s \<Rightarrow> Inr s
      | None \<Rightarrow>
          if \<not> (par > 0 \<and> par < uint (num_blocks (s_block fs))) then Inl (AssertionError 182)
          else
            (case find_empty par [0..<DIRECT_BLOCKS_COUNT] fs of
               Inl e \<Rightarrow> Inl e
             | Inr None \<Rightarrow> Inl LookupError
             | Inr (Some i) \<Rightarrow> Inr (int i)))"

text \<open>
  Line 195: \<open>fs.inodes[parent].direct_blocks[parent_direct_block] = inode.idx\<close>; the
  right-hand side is read first.
\<close>

definition link_child :: "int \<Rightarrow> int \<Rightarrow> int option \<Rightarrow> FileSystem \<Rightarrow> unit outcome" where
  "link_child par slot idx_attr fs =
     (case idx_attr of
        None \<Rightarrow> Raised AttributeError fs
      | Some v \<Rightarrow> set_direct_block par slot v fs)"

text \<open>Lines 197-198: \<open>fs.inodes[idx].direct_blocks[i] = inode.blocks[i]\<close>.\<close>

fun copy_blocks :: "int \<Rightarrow> int list \<Rightarrow> nat list \<Rightarrow> FileSystem \<Rightarrow> unit outcome" where
  "copy_blocks idx blocks [] fs = Returned () fs"
| "copy_blocks idx blocks (i # rest) fs =
     (case list_get blocks i of
        Inl e \<Rightarrow> Raised e fs
      | Inr v \<Rightarrow> seq (set_direct_block idx (int i) v fs) (copy_blocks idx blocks rest))"

text \<open>
  Lines 175-200. The constructor is called with \<open>idx=idx\<close> and without \<open>blocks\<close>, so
  with the default list.
\<close>

definition mkdir ::
  "FileSystem \<Rightarrow> str \<Rightarrow> int \<Rightarrow> int \<Rightarrow> int option \<Rightarrow> TInode outcome" where
  "mkdir fs nm idx par parent_direct_block =
     (case TInode_init fs nm directory par (Some idx) default_blocks of
        Inl e \<Rightarrow> Raised e fs
      | Inr inode \<Rightarrow>
          (case choose_slot par parent_direct_block fs of
             Inl e \<Rightarrow> Raised e fs
           | Inr slot \<Rightarrow>
               seq (set_n_type idx (node_int (t_n_type inode)) fs) (\<lambda>fs.
               seq (set_name idx (t_name inode) fs) (\<lambda>fs.
               seq (set_parent idx par fs) (\<lambda>fs.
               seq (link_child par slot (t_idx inode) fs) (\<lambda>fs.
               seq (copy_blocks idx (t_blocks inode) [0..<DIRECT_BLOCKS_COUNT] fs) (\<lambda>fs.
               Returned inode fs)))))))"

subsection \<open>The free-block count and the size accounting\<close>

text \<open>
  Modelled from the spec: the FreeList holds one marker per data block, free or used.
  The code that creates a volume and writes the free marker is in the C library, which is
  not part of the sources; \<open>set_data_block\<close> writes 0 for a used block, so every other
  value of the byte is read as free.
\<close>

definition is_free :: "8 word \<Rightarrow> bool" where
  "is_free m = (m \<noteq> 0)"

definition count_free :: "FileSystem \<Rightarrow> nat" where
  "count_free fs = length (filter is_free (free_list fs))"

text \<open>The invariant of the superblock: \<open>free_blocks\<close> is the number of free markers.\<close>

definition free_count_ok :: "FileSystem \<Rightarrow> bool" where
  "free_count_ok fs = (unat (free_blocks (s_block fs)) = count_free fs)"

text \<open>
  For the loop of lines 219-225 at slot \<open>i\<close>: the slots it still visits, and the sum of
  the sizes of the blocks a list of slots names.
\<close>

definition rest_slots :: "nat \<Rightarrow> 32 word list \<Rightarrow> 32 word list" where
  "rest_slots i ps = takeWhile (\<lambda>p. sint p \<noteq> - 1) (drop i ps)"

definition slot_sum :: "DataBlock list \<Rightarrow> 32 word list \<Rightarrow> nat" where
  "slot_sum dbs ps = sum_list (map (\<lambda>p. unat (size_blk (dbs ! nat (sint p)))) ps)"

text \<open>
  The size accounting in the spec's words: the slots of an inode from slot 0 up to the
  first one that holds the sentinel -1, and the sum of the sizes of the data blocks they
  name.
\<close>

definition prefix_slots :: "Inode \<Rightarrow> 32 word list" where
  "prefix_slots ino = takeWhile (\<lambda>p. sint p \<noteq> - 1) (direct_blocks ino)"

definition prefix_sum :: "FileSystem \<Rightarrow> Inode \<Rightarrow> nat" where
  "prefix_sum fs ino =
     sum_list (map (\<lambda>p. unat (size_blk (data_blocks fs ! nat (sint p)))) (prefix_slots ino))"

subsection \<open>A volume of 16 blocks\<close>

text \<open>
  The volume of the spec's scenarios: 16 slots, the root directory at inode 1 with
  parent 0, every other inode unallocated, every slot empty, every block free.
\<close>

definition no_slots :: "32 word list" where
  "no_slots = [- 1, - 1, - 1, - 1, - 1, - 1, - 1, - 1, - 1, - 1, - 1, - 1]"

definition empty_inode :: Inode where
  "empty_inode = \<lparr>n_type = 3, size_ino = 0, name = replicate 32 0,
     direct_blocks = no_slots, parent = 0\<rparr>"

definition empty_block :: DataBlock where
  "empty_block = \<lparr>size_blk = 0, block = replicate 1024 0\<rparr>"

definition fs0 :: FileSystem where
  "fs0 = \<lparr>s_block = \<lparr>num_blocks = 16, free_blocks = 16\<rparr>,
     free_list = [1, 1, 1, 1, 1, 1, 1, 1, 1, 1, 1, 1, 1, 1, 1, 1],
     inodes = (replicate 16 empty_inode)[1 := empty_inode\<lparr>n_type := 2\<rparr>],
     data_blocks = replicate 16 empty_block,
     root_node = 1\<rparr>"

text \<open>The name \<open>dir2\<close>, padded with spaces to 32 characters, and the payload \<open>hello\<close>.\<close>

definition dir2 :: str where
  "dir2 = [100, 105, 114, 50] @ replicate 28 32"

definition hello :: "int list" where
  "hello = [104, 101, 108, 108, 111]"

text \<open>
  The volume after \<open>set_data_block(5, hello, 5, 2, 0, fs)\<close>, after the same call a
  second time, and after \<open>set_data_block(5, [], -1, 2, 0, fs)\<close> on the fresh volume;
  a volume with every block used, before and after the call.
\<close>

definition fs_hello :: FileSystem where
  "fs_hello = \<lparr>s_block = \<lparr>num_blocks = 16, free_blocks = 15\<rparr>,
     free_list = [1, 1, 1, 1, 1, 0, 1, 1, 1, 1, 1, 1, 1, 1, 1, 1],
     inodes = (replicate 16 empty_inode)[1 := empty_inode\<lparr>n_type := 2\<rparr>,
        2 := empty_inode\<lparr>size_ino := 5,
               direct_blocks := [5, - 1, - 1, - 1, - 1, - 1, - 1, - 1, - 1, - 1, - 1, - 1]\<rparr>],
     data_blocks = (replicate 16 empty_block)[5 :=
        \<lparr>size_blk = 5, block = (replicate 1024 0)[0 := 104, 1 := 101, 2 := 108, 3 := 108, 4 := 111]\<rparr>],
     root_node = 1\<rparr>"

definition fs_hello2 :: FileSystem where
  "fs_hello2 = fs_hello\<lparr>s_block := \<lparr>num_blocks = 16, free_blocks = 14\<rparr>\<rparr>"

definition fs_neg :: FileSystem where
  "fs_neg = \<lparr>s_block = \<lparr>num_blocks = 16, free_blocks = 15\<rparr>,
     free_list = [1, 1, 1, 1, 1, 0, 1, 1, 1, 1, 1, 1, 1, 1, 1, 1],
     inodes = (replicate 16 empty_inode)[1 := empty_inode\<lparr>n_type := 2\<rparr>,
        2 := empty_inode\<lparr>size_ino := - 1,
               direct_blocks := [5, - 1, - 1, - 1, - 1, - 1, - 1, - 1, - 1, - 1, - 1, - 1]\<rparr>],
     data_blocks = (replicate 16 empty_block)[5 :=
        \<lparr>size_blk = - 1, block = replicate 1024 0\<rparr>],
     root_node = 1\<rparr>"

definition fs_full :: FileSystem where
  "fs_full = fs0\<lparr>s_block := \<lparr>num_blocks = 16, free_blocks = 0\<rparr>,
     free_list := [0, 0, 0, 0, 0, 0, 0, 0, 0, 0, 0, 0, 0, 0, 0, 0]\<rparr>"

definition fs_wrapped :: FileSystem where
  "fs_wrapped = fs_hello\<lparr>s_block := \<lparr>num_blocks = 16, free_blocks = - 1\<rparr>,
     free_list := [0, 0, 0, 0, 0, 0, 0, 0, 0, 0, 0, 0, 0, 0, 0, 0]\<rparr>"

subsection \<open>A small tree\<close>

text \<open>
  The same volume with the directory \<open>dir2\<close> at inode 2 under the root, one child at
  inode 3 in its slot 0, and the expected model of inode 2 as
  \<open>TInode(fs, dir2, NodeType.directory, 1, blocks=[3])\<close> builds it, pinned to index 2.
\<close>

definition dir2_bytes :: "8 word list" where
  "dir2_bytes = [100, 105, 114, 50] @ replicate 28 32"

definition one_child :: "32 word list" where
  "one_child = [3, - 1, - 1, - 1, - 1, - 1, - 1, - 1, - 1, - 1, - 1, - 1]"

definition fs_tree :: FileSystem where
  "fs_tree = fs0\<lparr>inodes := (replicate 16 empty_inode)
     [1 := empty_inode\<lparr>n_type := 2,
            direct_blocks := [2, - 1, - 1, - 1, - 1, - 1, - 1, - 1, - 1, - 1, - 1, - 1]\<rparr>,
      2 := \<lparr>n_type = 2, size_ino = 0, name = dir2_bytes, direct_blocks = one_child, parent = 1\<rparr>,
      3 := empty_inode\<lparr>n_type := 2, parent := 2\<rparr>]\<rparr>"

definition t_dir2 :: TInode where
  "t_dir2 = \<lparr>t_name = dir2, t_n_type = directory, t_parent = 1,
     t_blocks = [3, - 1, - 1, - 1, - 1, - 1, - 1, - 1, - 1, - 1, - 1, - 1], t_idx = Some 2\<rparr>"

section \<open>Properties\<close>

subsection \<open>What a call of set_data_block that returns has done\<close>

declare size_loop.simps [simp del]

lemma seq_Returned:
  "seq r f = Returned u fs' \<Longrightarrow> \<exists>fs1. r = Returned () fs1 \<and> f fs1 = Returned u fs'"
  by (cases r) auto

lemma in_arena_nat: "in_arena xs i \<Longrightarrow> nat i < length xs"
  by (auto simp: in_arena_def)

lemma ptr_get_Inr: "ptr_get xs i = Inr x \<longleftrightarrow> in_arena xs i \<and> x = xs ! nat i"
  by (auto simp: ptr_get_def)

lemma arr_get_nat_Inr: "arr_get xs (int i) = Inr x \<longleftrightarrow> i < length xs \<and> x = xs ! i"
  by (auto simp: arr_get_def arr_index_def)

lemma arr_index_Inr: "arr_index n i = Inr k \<Longrightarrow> k < n"
  by (auto simp: arr_index_def Let_def split: if_splits)

lemma set_block_size_Returned:
  assumes "set_block_size bn v fs = Returned u fs'"
  shows "in_arena (data_blocks fs) bn"
    and "fs' = fs\<lparr>data_blocks := (data_blocks fs)[nat bn :=
           (data_blocks fs ! nat bn)\<lparr>size_blk := word_of_int v\<rparr>]\<rparr>"
  using assms by (auto simp: set_block_size_def ptr_get_def split: if_splits)

lemma set_block_byte_Returned:
  assumes "set_block_byte bn i v fs = Returned u fs'"
  shows "in_arena (data_blocks fs) bn"
    and "fs' = fs\<lparr>data_blocks := (data_blocks fs)[nat bn :=
           (data_blocks fs ! nat bn)\<lparr>block := (block (data_blocks fs ! nat bn))[i := word_of_int v]\<rparr>]\<rparr>"
  using assms
  by (auto simp: set_block_byte_def ptr_get_def arr_index_def split: if_splits sum.splits)

lemma copy_data_Returned:
  "copy_data bn data ks fs = Returned u fs' \<Longrightarrow> in_arena (data_blocks fs) bn \<Longrightarrow>
   \<exists>B. fs' = fs\<lparr>data_blocks := (data_blocks fs)[nat bn := (data_blocks fs ! nat bn)\<lparr>block := B\<rparr>]\<rparr>
     \<and> length B = length (block (data_blocks fs ! nat bn))
     \<and> (\<forall>k. k \<notin> set ks \<longrightarrow> B ! k = block (data_blocks fs ! nat bn) ! k)"
proof (induction ks arbitrary: fs)
  case Nil
  then have "fs' = fs" by simp
  then show ?case
    by (intro exI [of _ "block (data_blocks fs ! nat bn)"]) simp
next
  case (Cons i rest)
  from Cons.prems(1) obtain v where v: "list_get data i = Inr v"
    and s: "seq (set_block_byte bn i v fs) (copy_data bn data rest) = Returned u fs'"
    by (auto split: sum.splits)
  from seq_Returned [OF s] obtain fs1 where
    b: "set_block_byte bn i v fs = Returned () fs1" and r: "copy_data bn data rest fs1 = Returned u fs'"
    by blast
  let ?d = "data_blocks fs ! nat bn"
  have n: "nat bn < length (data_blocks fs)"
    using Cons.prems(2) by (rule in_arena_nat)
  have f1: "fs1 = fs\<lparr>data_blocks := (data_blocks fs)[nat bn :=
      ?d\<lparr>block := (block ?d)[i := word_of_int v]\<rparr>]\<rparr>"
    using set_block_byte_Returned(2) [OF b] .
  have a1: "in_arena (data_blocks fs1) bn"
    using Cons.prems(2) by (simp add: f1 in_arena_def)
  from Cons.IH [OF r a1] obtain B where
    B: "fs' = fs1\<lparr>data_blocks := (data_blocks fs1)[nat bn := (data_blocks fs1 ! nat bn)\<lparr>block := B\<rparr>]\<rparr>"
      "length B = length (block (data_blocks fs1 ! nat bn))"
      "\<forall>k. k \<notin> set rest \<longrightarrow> B ! k = block (data_blocks fs1 ! nat bn) ! k"
    by blast
  have d1: "data_blocks fs1 ! nat bn = ?d\<lparr>block := (block ?d)[i := word_of_int v]\<rparr>"
    using n by (simp add: f1)
  show ?case
  proof (intro exI [of _ B] conjI allI impI)
    show "fs' = fs\<lparr>data_blocks := (data_blocks fs)[nat bn := ?d\<lparr>block := B\<rparr>]\<rparr>"
      using B(1) n by (simp add: f1)
    show "length B = length (block ?d)"
      using B(2) by (simp add: d1)
    fix k assume "k \<notin> set (i # rest)"
    then show "B ! k = block ?d ! k"
      using B(3) by (simp add: d1)
  qed
qed

lemma set_direct_block_Returned:
  assumes "set_direct_block pi slot v fs = Returned u fs'"
  shows "in_arena (inodes fs) pi"
    and "\<exists>k. arr_index (length (direct_blocks (inodes fs ! nat pi))) slot = Inr k \<and>
         fs' = fs\<lparr>inodes := (inodes fs)[nat pi :=
           (inodes fs ! nat pi)\<lparr>direct_blocks := (direct_blocks (inodes fs ! nat pi))[k := word_of_int v]\<rparr>]\<rparr>"
  using assms
  by (auto simp: set_direct_block_def ptr_get_def split: if_splits sum.splits)

lemma set_inode_size_Returned:
  assumes "set_inode_size pi v fs = Returned u fs'"
  shows "fs' = fs\<lparr>inodes := (inodes fs)[nat pi := (inodes fs ! nat pi)\<lparr>size_ino := word_of_int v\<rparr>]\<rparr>"
  using assms by (auto simp: set_inode_size_def ptr_get_def split: if_splits)

lemma set_free_list_Returned:
  assumes "set_free_list bn v fs = Returned u fs'"
  shows "in_arena (free_list fs) bn"
    and "fs' = fs\<lparr>free_list := (free_list fs)[nat bn := word_of_int v]\<rparr>"
  using assms by (auto simp: set_free_list_def split: if_splits)


lemma u16_step:
  "(of_nat (unat (word_of_int (uint s + uint d) :: 16 word) + r) :: 16 word)
   = of_nat (unat s + (unat d + r))"
  for s :: "16 word" and d :: "64 word"
  by (simp add: add.assoc)

lemma size_loop_Returned:
  "size_loop pi i fs = Returned u fs' \<Longrightarrow>
   in_arena (inodes fs) pi \<and>
   fs' = fs\<lparr>inodes := (inodes fs)[nat pi := (inodes fs ! nat pi)\<lparr>size_ino :=
           of_nat (unat (size_ino (inodes fs ! nat pi))
                   + slot_sum (data_blocks fs)
                       (rest_slots i (direct_blocks (inodes fs ! nat pi))))\<rparr>]\<rparr> \<and>
   (\<forall>p \<in> set (rest_slots i (direct_blocks (inodes fs ! nat pi))).
      in_arena (data_blocks fs) (sint p)) \<and>
   i + length (rest_slots i (direct_blocks (inodes fs ! nat pi)))
     < length (direct_blocks (inodes fs ! nat pi))"
proof (induction pi i fs rule: size_loop.induct)
  case (1 pi i fs)
  let ?ino = "inodes fs ! nat pi"
  let ?ps = "direct_blocks ?ino"
  let ?p = "?ps ! i"
  from "1.prems" have a: "in_arena (inodes fs) pi"
    by (subst (asm) size_loop.simps) (auto simp: ptr_get_Inr split: sum.splits)
  then have g: "ptr_get (inodes fs) pi = Inr ?ino"
    by (simp add: ptr_get_Inr)
  have n: "nat pi < length (inodes fs)"
    using a by (rule in_arena_nat)
  from "1.prems" g have l: "i < length ?ps"
    by (subst (asm) size_loop.simps) (auto simp: arr_get_nat_Inr split: sum.splits)
  then have h: "arr_get ?ps (int i) = Inr ?p"
    by (simp add: arr_get_nat_Inr)
  have dr: "drop i ?ps = ?p # drop (Suc i) ?ps"
    using l by (simp add: Cons_nth_drop_Suc)
  show ?case
  proof (cases "sint ?p = - 1")
    case True
    with "1.prems" g h have "fs' = fs"
      by (subst (asm) size_loop.simps) simp
    moreover have "rest_slots i ?ps = []"
      using True by (simp add: rest_slots_def dr)
    ultimately show ?thesis
      using a l n by (simp add: slot_sum_def)
  next
    case False
    let ?d = "data_blocks fs ! nat (sint ?p)"
    define S1 :: "16 word" where "S1 = word_of_int (uint (size_ino ?ino) + uint (size_blk ?d))"
    define R where "R = slot_sum (data_blocks fs) (rest_slots (Suc i) ?ps)"
    from "1.prems" g h False have b: "in_arena (data_blocks fs) (sint ?p)"
      by (subst (asm) size_loop.simps) (auto simp: ptr_get_Inr split: sum.splits)
    then have k: "ptr_get (data_blocks fs) (sint ?p) = Inr ?d"
      by (simp add: ptr_get_Inr)
    from "1.prems" g h False k
    have r: "size_loop pi (i + 1) (fs\<lparr>inodes := (inodes fs)[nat pi := ?ino\<lparr>size_ino :=
        word_of_int (uint (size_ino ?ino) + uint (size_blk ?d))\<rparr>]\<rparr>) = Returned u fs'"
      by (subst (asm) size_loop.simps) simp
    note ih = "1.IH" [OF g h False k r, folded S1_def]
    have rs: "rest_slots i ?ps = ?p # rest_slots (Suc i) ?ps"
      using False by (simp add: rest_slots_def dr)
    have st: "(of_nat (unat S1 + R) :: 16 word)
        = of_nat (unat (size_ino ?ino) + slot_sum (data_blocks fs) (rest_slots i ?ps))"
      unfolding S1_def R_def rs slot_sum_def by (simp only: u16_step list.map sum_list.Cons)
    have "fs' = fs\<lparr>inodes := (inodes fs)[nat pi := ?ino\<lparr>size_ino :=
           of_nat (unat (size_ino ?ino) + slot_sum (data_blocks fs) (rest_slots i ?ps))\<rparr>]\<rparr>"
      using ih n unfolding st [symmetric] R_def by simp
    moreover have "\<forall>p \<in> set (rest_slots i ?ps). in_arena (data_blocks fs) (sint p)"
      using ih b n unfolding rs by simp
    moreover have "i + length (rest_slots i ?ps) < length ?ps"
      using ih n unfolding rs by simp
    ultimately show ?thesis
      using a by blast
  qed
qed


lemma set_data_block_steps:
  assumes "set_data_block bn data ds pi slot fs = Returned u fs'"
  obtains fs1 fs2 fs3 fs4 fs5 fs6 where
    "ds \<le> 1024"
    "set_block_size bn ds fs = Returned () fs1"
    "copy_data bn data [0..<nat ds] fs1 = Returned () fs2"
    "set_direct_block pi slot bn fs2 = Returned () fs3"
    "set_inode_size pi 0 fs3 = Returned () fs4"
    "size_loop pi 0 fs4 = Returned () fs5"
    "set_free_list bn 0 fs5 = Returned () fs6"
    "fs' = fs6\<lparr>s_block := (s_block fs6)\<lparr>free_blocks := free_blocks (s_block fs6) - 1\<rparr>\<rparr>"
proof -
  from assms have le: "ds \<le> 1024"
    and s0: "seq (set_block_size bn ds fs) (\<lambda>fs.
        seq (copy_data bn data [0..<nat ds] fs) (\<lambda>fs.
        seq (set_direct_block pi slot bn fs) (\<lambda>fs.
        seq (set_inode_size pi 0 fs) (\<lambda>fs.
        seq (size_loop pi 0 fs) (\<lambda>fs.
        seq (set_free_list bn 0 fs) (\<lambda>fs.
        Returned () (fs\<lparr>s_block := (s_block fs)\<lparr>free_blocks :=
          word_of_int (uint (free_blocks (s_block fs)) - 1)\<rparr>\<rparr>))))))) = Returned u fs'"
    by (auto simp: set_data_block_def split: if_splits)
  from seq_Returned [OF s0] obtain fs1 where 1: "set_block_size bn ds fs = Returned () fs1"
    and s1: "seq (copy_data bn data [0..<nat ds] fs1) (\<lambda>fs.
        seq (set_direct_block pi slot bn fs) (\<lambda>fs.
        seq (set_inode_size pi 0 fs) (\<lambda>fs.
        seq (size_loop pi 0 fs) (\<lambda>fs.
        seq (set_free_list bn 0 fs) (\<lambda>fs.
        Returned () (fs\<lparr>s_block := (s_block fs)\<lparr>free_blocks :=
          word_of_int (uint (free_blocks (s_block fs)) - 1)\<rparr>\<rparr>)))))) = Returned u fs'"
    by blast
  from seq_Returned [OF s1] obtain fs2 where 2: "copy_data bn data [0..<nat ds] fs1 = Returned () fs2"
    and s2: "seq (set_direct_block pi slot bn fs2) (\<lambda>fs.
        seq (set_inode_size pi 0 fs) (\<lambda>fs.
        seq (size_loop pi 0 fs) (\<lambda>fs.
        seq (set_free_list bn 0 fs) (\<lambda>fs.
        Returned () (fs\<lparr>s_block := (s_block fs)\<lparr>free_blocks :=
          word_of_int (uint (free_blocks (s_block fs)) - 1)\<rparr>\<rparr>))))) = Returned u fs'"
    by blast
  from seq_Returned [OF s2] obtain fs3 where 3: "set_direct_block pi slot bn fs2 = Returned () fs3"
    and s3: "seq (set_inode_size pi 0 fs3) (\<lambda>fs.
        seq (size_loop pi 0 fs) (\<lambda>fs.
        seq (set_free_list bn 0 fs) (\<lambda>fs.
        Returned () (fs\<lparr>s_block := (s_block fs)\<lparr>free_blocks :=
          word_of_int (uint (free_blocks (s_block fs)) - 1)\<rparr>\<rparr>)))) = Returned u fs'"
    by blast
  from seq_Returned [OF s3] obtain fs4 where 4: "set_inode_size pi 0 fs3 = Returned () fs4"
    and s4: "seq (size_loop pi 0 fs4) (\<lambda>fs.
        seq (set_free_list bn 0 fs) (\<lambda>fs.
        Returned () (fs\<lparr>s_block := (s_block fs)\<lparr>free_blocks :=
          word_of_int (uint (free_blocks (s_block fs)) - 1)\<rparr>\<rparr>))) = Returned u fs'"
    by blast
  from seq_Returned [OF s4] obtain fs5 where 5: "size_loop pi 0 fs4 = Returned () fs5"
    and s5: "seq (set_free_list bn 0 fs5) (\<lambda>fs.
        Returned () (fs\<lparr>s_block := (s_block fs)\<lparr>free_blocks :=
          word_of_int (uint (free_blocks (s_block fs)) - 1)\<rparr>\<rparr>)) = Returned u fs'"
    by blast
  from seq_Returned [OF s5] obtain fs6 where 6: "set_free_list bn 0 fs5 = Returned () fs6"
    and s6: "Returned () (fs6\<lparr>s_block := (s_block fs6)\<lparr>free_blocks :=
          word_of_int (uint (free_blocks (s_block fs6)) - 1)\<rparr>\<rparr>) = Returned u fs'"
    by blast
  from s6 have 7: "fs' = fs6\<lparr>s_block := (s_block fs6)\<lparr>free_blocks := free_blocks (s_block fs6) - 1\<rparr>\<rparr>"
    by simp
  from le 1 2 3 4 5 6 7 show thesis
    by (rule that)
qed

text \<open>What a call that returns has done, field by field.\<close>

lemma set_data_block_Returned:
  assumes "set_data_block bn data ds pi slot fs = Returned u fs'"
  shows "ds \<le> 1024"
    and "in_arena (data_blocks fs) bn"
    and "in_arena (inodes fs) pi"
    and "in_arena (free_list fs) bn"
    and "\<exists>B. length B = length (block (data_blocks fs ! nat bn))
           \<and> (\<forall>j. nat ds \<le> j \<longrightarrow> B ! j = block (data_blocks fs ! nat bn) ! j)
           \<and> data_blocks fs' = (data_blocks fs)[nat bn :=
                (data_blocks fs ! nat bn)\<lparr>size_blk := word_of_int ds, block := B\<rparr>]"
    and "\<exists>k S. arr_index (length (direct_blocks (inodes fs ! nat pi))) slot = Inr k
           \<and> inodes fs' = (inodes fs)[nat pi := (inodes fs ! nat pi)
                \<lparr>direct_blocks := (direct_blocks (inodes fs ! nat pi))[k := word_of_int bn],
                 size_ino := S\<rparr>]"
    and "free_list fs' = (free_list fs)[nat bn := 0]"
    and "s_block fs' = (s_block fs)\<lparr>free_blocks := free_blocks (s_block fs) - 1\<rparr>"
    and "root_node fs' = root_node fs"
    and "size_ino (inodes fs' ! nat pi) =
           of_nat (slot_sum (data_blocks fs') (rest_slots 0 (direct_blocks (inodes fs' ! nat pi))))"
    and "\<forall>p \<in> set (rest_slots 0 (direct_blocks (inodes fs' ! nat pi))).
           in_arena (data_blocks fs') (sint p)"
    and "length (rest_slots 0 (direct_blocks (inodes fs' ! nat pi)))
           < length (direct_blocks (inodes fs' ! nat pi))"
proof -
  from assms obtain fs1 fs2 fs3 fs4 fs5 fs6 where
    le: "ds \<le> 1024"
    and 1: "set_block_size bn ds fs = Returned () fs1"
    and 2: "copy_data bn data [0..<nat ds] fs1 = Returned () fs2"
    and 3: "set_direct_block pi slot bn fs2 = Returned () fs3"
    and 4: "set_inode_size pi 0 fs3 = Returned () fs4"
    and 5: "size_loop pi 0 fs4 = Returned () fs5"
    and 6: "set_free_list bn 0 fs5 = Returned () fs6"
    and 7: "fs' = fs6\<lparr>s_block := (s_block fs6)\<lparr>free_blocks := free_blocks (s_block fs6) - 1\<rparr>\<rparr>"
    by (rule set_data_block_steps)
  let ?d = "data_blocks fs ! nat bn"
  let ?ino = "inodes fs ! nat pi"
  note a1 = set_block_size_Returned(1) [OF 1]
  have n1: "nat bn < length (data_blocks fs)"
    using a1 by (rule in_arena_nat)
  have e1: "fs1 = fs\<lparr>data_blocks := (data_blocks fs)[nat bn := ?d\<lparr>size_blk := word_of_int ds\<rparr>]\<rparr>"
    using set_block_size_Returned(2) [OF 1] .
  have a1': "in_arena (data_blocks fs1) bn"
    using a1 by (simp add: e1 in_arena_def)
  from copy_data_Returned [OF 2 a1'] obtain B where
    e2: "fs2 = fs1\<lparr>data_blocks := (data_blocks fs1)[nat bn := (data_blocks fs1 ! nat bn)\<lparr>block := B\<rparr>]\<rparr>"
    and lB: "length B = length (block (data_blocks fs1 ! nat bn))"
    and fB: "\<forall>k. k \<notin> set [0..<nat ds] \<longrightarrow> B ! k = block (data_blocks fs1 ! nat bn) ! k"
    by blast
  have d2: "data_blocks fs2 = (data_blocks fs)[nat bn := ?d\<lparr>size_blk := word_of_int ds, block := B\<rparr>]"
    using n1 by (simp add: e2 e1)
  have i2: "inodes fs2 = inodes fs" "free_list fs2 = free_list fs" "s_block fs2 = s_block fs"
    "root_node fs2 = root_node fs"
    by (simp_all add: e2 e1)
  note a3 = set_direct_block_Returned(1) [OF 3]
  from set_direct_block_Returned(2) [OF 3] obtain k where
    k: "arr_index (length (direct_blocks (inodes fs2 ! nat pi))) slot = Inr k"
    and e3: "fs3 = fs2\<lparr>inodes := (inodes fs2)[nat pi := (inodes fs2 ! nat pi)
        \<lparr>direct_blocks := (direct_blocks (inodes fs2 ! nat pi))[k := word_of_int bn]\<rparr>]\<rparr>"
    by blast
  have n3: "nat pi < length (inodes fs)"
    using a3 by (simp add: i2 in_arena_nat)
  have e4: "fs4 = fs3\<lparr>inodes := (inodes fs3)[nat pi := (inodes fs3 ! nat pi)\<lparr>size_ino := word_of_int 0\<rparr>]\<rparr>"
    using set_inode_size_Returned [OF 4] .
  have i4: "inodes fs4 = (inodes fs)[nat pi := ?ino
      \<lparr>direct_blocks := (direct_blocks ?ino)[k := word_of_int bn], size_ino := 0\<rparr>]"
    using n3 by (simp add: e4 e3 i2)
  have o4: "data_blocks fs4 = data_blocks fs2" "free_list fs4 = free_list fs" "s_block fs4 = s_block fs"
    "root_node fs4 = root_node fs"
    by (simp_all add: e4 e3 i2)
  define ps where "ps = (direct_blocks ?ino)[k := word_of_int bn]"
  have p4: "direct_blocks (inodes fs4 ! nat pi) = ps" "size_ino (inodes fs4 ! nat pi) = 0"
    using n3 by (simp_all add: i4 ps_def)
  define S :: "16 word" where "S = of_nat (slot_sum (data_blocks fs2) (rest_slots 0 ps))"
  from size_loop_Returned [OF 5]
  have e5: "fs5 = fs4\<lparr>inodes := (inodes fs4)[nat pi := (inodes fs4 ! nat pi)\<lparr>size_ino := S\<rparr>]\<rparr>"
    and r5: "\<forall>p \<in> set (rest_slots 0 ps). in_arena (data_blocks fs2) (sint p)"
    and l5: "length (rest_slots 0 ps) < length ps"
    unfolding p4 o4 S_def by simp_all
  have i5: "inodes fs5 = (inodes fs)[nat pi := ?ino
      \<lparr>direct_blocks := (direct_blocks ?ino)[k := word_of_int bn], size_ino := S\<rparr>]"
    using n3 by (simp add: e5 i4)
  have o5: "data_blocks fs5 = data_blocks fs2" "free_list fs5 = free_list fs" "s_block fs5 = s_block fs"
    "root_node fs5 = root_node fs"
    by (simp_all add: e5 o4)
  note a6 = set_free_list_Returned(1) [OF 6]
  have e6: "fs6 = fs5\<lparr>free_list := (free_list fs5)[nat bn := 0]\<rparr>"
    using set_free_list_Returned(2) [OF 6] by simp
  have D: "data_blocks fs' = data_blocks fs2" and I: "inodes fs' = inodes fs5"
    by (simp_all add: 7 e6 o5)
  have P: "direct_blocks (inodes fs' ! nat pi) = ps" "size_ino (inodes fs' ! nat pi) = S"
    using n3 by (simp_all add: I i5 ps_def)
  show "ds \<le> 1024" by (rule le)
  show "in_arena (data_blocks fs) bn" by (rule a1)
  show "in_arena (inodes fs) pi" using a3 by (simp add: i2)
  show "in_arena (free_list fs) bn" using a6 by (simp add: o5)
  show "\<exists>B. length B = length (block ?d)
           \<and> (\<forall>j. nat ds \<le> j \<longrightarrow> B ! j = block ?d ! j)
           \<and> data_blocks fs' = (data_blocks fs)[nat bn := ?d\<lparr>size_blk := word_of_int ds, block := B\<rparr>]"
    using lB fB n1 by (intro exI [of _ B]) (simp add: D d2 e1)
  show "\<exists>k S. arr_index (length (direct_blocks ?ino)) slot = Inr k
           \<and> inodes fs' = (inodes fs)[nat pi := ?ino
                \<lparr>direct_blocks := (direct_blocks ?ino)[k := word_of_int bn], size_ino := S\<rparr>]"
    using k by (intro exI [of _ k] exI [of _ S]) (simp add: I i5 i2)
  show "free_list fs' = (free_list fs)[nat bn := 0]"
    by (simp add: 7 e6 o5)
  show "s_block fs' = (s_block fs)\<lparr>free_blocks := free_blocks (s_block fs) - 1\<rparr>"
    by (simp add: 7 e6 o5)
  show "root_node fs' = root_node fs"
    by (simp add: 7 e6 o5)
  show "size_ino (inodes fs' ! nat pi) =
      of_nat (slot_sum (data_blocks fs') (rest_slots 0 (direct_blocks (inodes fs' ! nat pi))))"
    unfolding P D S_def ..
  show "\<forall>p \<in> set (rest_slots 0 (direct_blocks (inodes fs' ! nat pi))).
      in_arena (data_blocks fs') (sint p)"
    unfolding P D by (rule r5)
  show "length (rest_slots 0 (direct_blocks (inodes fs' ! nat pi)))
      < length (direct_blocks (inodes fs' ! nat pi))"
    unfolding P by (rule l5)
qed

subsection \<open>Concrete runs\<close>

lemma word_consts:
  "(ucast (- 1 :: 64 word) :: 16 word) = - 1"
  by code_simp

lemmas run_simps = set_data_block_def set_block_size_def set_block_byte_def set_direct_block_def
  set_inode_size_def set_free_list_def size_loop.simps ptr_get_def in_arena_def arr_get_def
  arr_index_def list_get_def fs0_def hello_def empty_inode_def empty_block_def no_slots_def
  upt_rec list_update_swap word_consts

lemma hello_run: "set_data_block 5 hello 5 2 0 fs0 = Returned () fs_hello"
  by (simp add: run_simps fs_hello_def)

lemma hello_run2: "set_data_block 5 hello 5 2 0 fs_hello = Returned () fs_hello2"
  by (simp add: run_simps fs_hello_def fs_hello2_def)

lemma neg_run: "set_data_block 5 [] (- 1) 2 0 fs0 = Returned () fs_neg"
  by (simp add: run_simps fs_neg_def)

lemma full_run: "set_data_block 5 hello 5 2 0 fs_full = Returned () fs_wrapped"
  by (simp add: run_simps fs_full_def fs_wrapped_def fs_hello_def)

lemma unat_consts:
  "unat (- 1 :: 64 word) = 18446744073709551615"
  "unat (- 1 :: 16 word) = 65535"
  "unat (- 1 :: 32 word) = 4294967295"
  by (simp_all add: unsigned_minus_1_eq_mask mask_eq_exp_minus_1)

lemma prefix_sum_slot_sum:
  "slot_sum (data_blocks fs) (rest_slots 0 (direct_blocks ino)) = prefix_sum fs ino"
  by (simp add: slot_sum_def rest_slots_def prefix_sum_def prefix_slots_def)

lemma prefix_slots_rest: "rest_slots 0 (direct_blocks ino) = prefix_slots ino"
  by (simp add: rest_slots_def prefix_slots_def)

lemma filter_update_count:
  "n < length xs \<Longrightarrow> P (xs ! n) \<Longrightarrow> \<not> P y \<Longrightarrow>
   Suc (length (filter P (xs[n := y]))) = length (filter P xs)"
proof (induction xs arbitrary: n)
  case Nil
  then show ?case by simp
next
  case (Cons x xs)
  then show ?case by (cases n) auto
qed

lemma filter_update_same:
  "\<not> P (xs ! n) \<Longrightarrow> \<not> P y \<Longrightarrow> length (filter P (xs[n := y])) = length (filter P xs)"
proof (induction xs arbitrary: n)
  case Nil
  then show ?case by simp
next
  case (Cons x xs)
  then show ?case by (cases n) auto
qed

lemma utf8_decode_ascii:
  "\<forall>b \<in> set bs. unat b < 128 \<Longrightarrow> utf8_decode bs = Inr (map unat bs)"
  by (induction bs) (simp_all add: push_def)

lemma replicate_12: "replicate 12 x = [x, x, x, x, x, x, x, x, x, x, x, x]"
  by (simp add: numeral_eq_Suc)

lemma replicate_11: "replicate 11 x = [x, x, x, x, x, x, x, x, x, x, x]"
  by (simp add: numeral_eq_Suc)

lemma TInode_init_Some: "TInode_init fs nm ty par (Some i) bl \<noteq> Inr t"
  by (auto simp: TInode_init_def split: if_splits sum.splits)

subsection \<open>The size sum without overflow\<close>

lemma sum_list_bound: "\<forall>x \<in> set xs. f x \<le> (c :: nat) \<Longrightarrow> sum_list (map f xs) \<le> length xs * c"
  by (induction xs) auto

lemma unat_size_of_int:
  "0 \<le> k \<Longrightarrow> k \<le> 1024 \<Longrightarrow> unat (word_of_int k :: 64 word) = nat k"
  by (simp add: unat_eq_nat_uint uint_word_of_int)

lemma set_data_block_sum_bound:
  assumes ret: "set_data_block block_num data data_size parent_inode parent_block_num fs
                  = Returned u fs'"
    and ds: "0 \<le> data_size"
    and len: "length (direct_blocks (inodes fs ! nat parent_inode)) \<le> 12"
    and inv: "\<forall>d \<in> set (data_blocks fs). unat (size_blk d) \<le> 1024"
  shows "prefix_sum fs' (inodes fs' ! nat parent_inode) < 65536"
proof -
  note r = set_data_block_Returned [OF ret]
  let ?ps = "prefix_slots (inodes fs' ! nat parent_inode)"
  have ni: "nat parent_inode < length (inodes fs)"
    using r(3) by (rule in_arena_nat)
  from r(5) obtain B where
    D: "data_blocks fs' = (data_blocks fs)[nat block_num :=
        (data_blocks fs ! nat block_num)\<lparr>size_blk := word_of_int data_size, block := B\<rparr>]"
    by blast
  from r(6) obtain k S where
    I: "inodes fs' = (inodes fs)[nat parent_inode := (inodes fs ! nat parent_inode)
        \<lparr>direct_blocks := (direct_blocks (inodes fs ! nat parent_inode))[k := word_of_int block_num],
         size_ino := S\<rparr>]"
    by blast
  have l: "length (direct_blocks (inodes fs' ! nat parent_inode)) \<le> 12"
    using ni len by (simp add: I)
  have n: "length ?ps \<le> 11"
    using r(12) l unfolding prefix_slots_rest by simp
  have b: "unat (size_blk (data_blocks fs' ! nat (sint p))) \<le> 1024" if "p \<in> set ?ps" for p
  proof -
    from that r(11) have "in_arena (data_blocks fs') (sint p)"
      unfolding prefix_slots_rest by blast
    then have j: "nat (sint p) < length (data_blocks fs)"
      by (auto simp: in_arena_def D)
    show ?thesis
    proof (cases "nat (sint p) = nat block_num")
      case True
      then show ?thesis
        using j ds r(1) by (simp add: D unat_size_of_int)
    next
      case False
      then have "data_blocks fs' ! nat (sint p) = data_blocks fs ! nat (sint p)"
        by (simp add: D)
      moreover have "data_blocks fs ! nat (sint p) \<in> set (data_blocks fs)"
        using j by simp
      ultimately show ?thesis
        using inv by simp
    qed
  qed
  have "prefix_sum fs' (inodes fs' ! nat parent_inode) \<le> length ?ps * 1024"
    unfolding prefix_sum_def using b by (intro sum_list_bound) blast
  also have "\<dots> \<le> 11 * 1024"
    using n by simp
  finally show ?thesis
    by simp
qed

subsection \<open>The constructor, the slot scan and the link check\<close>

text \<open>
  What the code around the claims on \<open>mkdir\<close> and \<open>check\<close> does where it is reached:
  the two assertions of the constructor, the constructor without an index, the scan for
  the first empty slot, and the link check, which passes only on a directory none of
  whose 12 slots is empty.
\<close>

lemma TInode_init_name_length:
  "length nm \<noteq> 32 \<Longrightarrow> TInode_init fs nm ty par idx bl = Inl (AssertionError 106)"
  by (simp add: TInode_init_def)

lemma TInode_init_parent_not_directory:
  "length nm = 32 \<Longrightarrow> 0 < par \<Longrightarrow> par < uint (num_blocks (s_block fs)) \<Longrightarrow>
   in_arena (inodes fs) par \<Longrightarrow> sint (n_type (inodes fs ! nat par)) \<noteq> 2 \<Longrightarrow>
   TInode_init fs nm ty par idx bl = Inl (AssertionError 110)"
  by (simp add: TInode_init_def ptr_get_def)

lemma TInode_init_without_idx:
  "length nm = 32 \<Longrightarrow> 0 < par \<Longrightarrow> par < uint (num_blocks (s_block fs)) \<Longrightarrow>
   in_arena (inodes fs) par \<Longrightarrow> sint (n_type (inodes fs ! nat par)) = 2 \<Longrightarrow>
   length bl \<le> 12 \<Longrightarrow>
   TInode_init fs nm ty par None bl
     = Inr \<lparr>t_name = nm, t_n_type = ty, t_parent = par,
            t_blocks = bl @ replicate (12 - length bl) (- 1), t_idx = None\<rparr>"
  by (simp add: TInode_init_def ptr_get_def DIRECT_BLOCKS_COUNT_def)

text \<open>
  The constructor without \<open>blocks\<close> and without \<open>idx\<close>: the block list of the object is
  the default of line 104, twelve zeros.
\<close>

lemma TInode_init_default_blocks:
  "TInode_init fs0 dir2 directory 1 None default_blocks
     = Inr \<lparr>t_name = dir2, t_n_type = directory, t_parent = 1,
            t_blocks = [0, 0, 0, 0, 0, 0, 0, 0, 0, 0, 0, 0], t_idx = None\<rparr>"
  by (simp add: TInode_init_def fs0_def dir2_def default_blocks_def ptr_get_def
      in_arena_def empty_inode_def no_slots_def DIRECT_BLOCKS_COUNT_def replicate_12)

lemma find_empty_Some:
  "find_empty par ks fs = Inr (Some k) \<Longrightarrow>
   \<exists>pre post. ks = pre @ k # post
     \<and> (\<forall>j \<in> set pre. sint (direct_blocks (inodes fs ! nat par) ! j) \<noteq> - 1)
     \<and> sint (direct_blocks (inodes fs ! nat par) ! k) = - 1"
proof (induction ks)
  case Nil
  then show ?case by simp
next
  case (Cons i rest)
  from Cons.prems have a: "in_arena (inodes fs) par"
    and l: "i < length (direct_blocks (inodes fs ! nat par))"
    by (auto simp: ptr_get_Inr arr_get_nat_Inr split: sum.splits)
  show ?case
  proof (cases "sint (direct_blocks (inodes fs ! nat par) ! i) = - 1")
    case True
    with Cons.prems a l have "k = i"
      by (simp add: ptr_get_def arr_get_def arr_index_def)
    with True show ?thesis
      by (intro exI [of _ "[]"] exI [of _ rest]) simp
  next
    case False
    with Cons.prems a l have "find_empty par rest fs = Inr (Some k)"
      by (simp add: ptr_get_def arr_get_def arr_index_def)
    from Cons.IH [OF this] obtain pre post where
      "rest = pre @ k # post"
      "\<forall>j \<in> set pre. sint (direct_blocks (inodes fs ! nat par) ! j) \<noteq> - 1"
      "sint (direct_blocks (inodes fs ! nat par) ! k) = - 1"
      by blast
    with False show ?thesis
      by (intro exI [of _ "i # pre"] exI [of _ post]) simp
  qed
qed

lemma find_empty_None:
  "find_empty par ks fs = Inr None \<Longrightarrow>
   \<forall>j \<in> set ks. sint (direct_blocks (inodes fs ! nat par) ! j) \<noteq> - 1"
proof (induction ks)
  case Nil
  then show ?case by simp
next
  case (Cons i rest)
  from Cons.prems have a: "in_arena (inodes fs) par"
    and l: "i < length (direct_blocks (inodes fs ! nat par))"
    by (auto simp: ptr_get_Inr arr_get_nat_Inr split: sum.splits)
  from Cons.prems a l have f: "sint (direct_blocks (inodes fs ! nat par) ! i) \<noteq> - 1"
    and r: "find_empty par rest fs = Inr None"
    by (auto simp: ptr_get_def arr_get_def arr_index_def split: if_splits)
  from Cons.IH [OF r] f show ?case by simp
qed

lemma all_children_True:
  "all_children fs idx ks = Inr True \<Longrightarrow>
   \<forall>d \<in> set ks. in_arena (inodes fs) (sint (direct_blocks (inodes fs ! nat idx) ! d))
     \<and> sint (parent (inodes fs ! nat (sint (direct_blocks (inodes fs ! nat idx) ! d)))) = idx"
proof (induction ks)
  case Nil
  then show ?case by simp
next
  case (Cons d rest)
  from Cons.prems have a: "in_arena (inodes fs) idx"
    and l: "d < length (direct_blocks (inodes fs ! nat idx))"
    by (auto simp: ptr_get_Inr arr_get_nat_Inr split: sum.splits)
  let ?p = "direct_blocks (inodes fs ! nat idx) ! d"
  from Cons.prems a l have c: "in_arena (inodes fs) (sint ?p)"
    by (auto simp: ptr_get_def arr_get_def arr_index_def split: if_splits sum.splits)
  from Cons.prems a l c have e: "sint (parent (inodes fs ! nat (sint ?p))) = idx"
    and r: "all_children fs idx rest = Inr True"
    by (auto simp: ptr_get_def arr_get_def arr_index_def split: if_splits)
  from Cons.IH [OF r] c e show ?case by simp
qed

lemma check_with_parents_no_empty_slot:
  assumes "check self fs idx True = Inr ()" and "t_idx self = Some i" and "d < 12"
  shows "sint (direct_blocks (inodes fs ! nat i) ! d) \<noteq> - 1"
proof -
  from assms(1,2) have "check_links fs i = Inr ()"
    by (auto simp: check_def split: if_splits sum.splits)
  then have "all_children fs i [0..<DIRECT_BLOCKS_COUNT] = Inr True"
    by (auto simp: check_links_def split: sum.splits bool.splits)
  from all_children_True [OF this] assms(3)
  have "in_arena (inodes fs) (sint (direct_blocks (inodes fs ! nat i) ! d))"
    by (simp add: DIRECT_BLOCKS_COUNT_def)
  then show ?thesis
    by (auto simp: in_arena_def)
qed

subsection \<open>The claims\<close>

text \<open>
  C1. A call of \<open>set_data_block\<close> with \<open>data_size > 1024\<close> ends in SystemExit with the
  filesystem exactly as it was: superblock, free list, every inode and every data block.
\<close>

theorem set_data_block_oversized:
  "data_size > 1024 \<Longrightarrow>
   set_data_block block_num data data_size parent_inode parent_block_num fs = Raised SystemExit fs"
  by (simp add: set_data_block_def)

theorem set_data_block_oversized_witness:
  "(2000 :: int) > 1024 \<and>
   set_data_block 5 (replicate 2000 0) 2000 2 0 fs0 = Raised SystemExit fs0"
  using set_data_block_oversized [of 2000 5 "replicate 2000 0" 2 0 fs0] by simp

text \<open>
  C2, as the code has it. After a call of \<open>set_data_block\<close> that returns, the owner's
  \<open>size\<close>, a 16-bit field, holds the sum of the sizes of the data blocks named by its
  slots from slot 0 up to the first -1, reduced modulo 65536; each of those slots names a
  block of the arena, and a slot holding -1 exists.
\<close>

theorem set_data_block_size_mod:
  assumes "set_data_block block_num data data_size parent_inode parent_block_num fs = Returned u fs'"
  shows "unat (size_ino (inodes fs' ! nat parent_inode))
           = prefix_sum fs' (inodes fs' ! nat parent_inode) mod 65536
         \<and> (\<forall>p \<in> set (prefix_slots (inodes fs' ! nat parent_inode)).
              in_arena (data_blocks fs') (sint p))
         \<and> length (prefix_slots (inodes fs' ! nat parent_inode))
              < length (direct_blocks (inodes fs' ! nat parent_inode))
         \<and> (0 \<le> data_size
              \<and> length (direct_blocks (inodes fs ! nat parent_inode)) \<le> 12
              \<and> (\<forall>d \<in> set (data_blocks fs). unat (size_blk d) \<le> 1024) \<longrightarrow>
              unat (size_ino (inodes fs' ! nat parent_inode))
                = prefix_sum fs' (inodes fs' ! nat parent_inode))"
proof -
  note r = set_data_block_Returned [OF assms]
  have m: "unat (size_ino (inodes fs' ! nat parent_inode))
      = prefix_sum fs' (inodes fs' ! nat parent_inode) mod 65536"
    unfolding r(10) prefix_sum_slot_sum by (simp add: unat_of_nat)
  moreover have "\<forall>p \<in> set (prefix_slots (inodes fs' ! nat parent_inode)).
      in_arena (data_blocks fs') (sint p)"
    using r(11) unfolding prefix_slots_rest .
  moreover have "length (prefix_slots (inodes fs' ! nat parent_inode))
      < length (direct_blocks (inodes fs' ! nat parent_inode))"
    using r(12) unfolding prefix_slots_rest .
  moreover have "unat (size_ino (inodes fs' ! nat parent_inode))
      = prefix_sum fs' (inodes fs' ! nat parent_inode)"
    if "0 \<le> data_size" "length (direct_blocks (inodes fs ! nat parent_inode)) \<le> 12"
      "\<forall>d \<in> set (data_blocks fs). unat (size_blk d) \<le> 1024"
    using set_data_block_sum_bound [OF assms that] m by simp
  ultimately show ?thesis by blast
qed

theorem set_data_block_size_mod_witness:
  "set_data_block 5 hello 5 2 0 fs0 = Returned () fs_hello
   \<and> prefix_slots (inodes fs_hello ! 2) = [5]
   \<and> in_arena (data_blocks fs_hello) (sint (5 :: 32 word))
   \<and> prefix_sum fs_hello (inodes fs_hello ! 2) mod 65536 = 5
   \<and> length (direct_blocks (inodes fs0 ! 2)) = 12
   \<and> set (data_blocks fs0) = {empty_block} \<and> unat (size_blk empty_block) = 0
   \<and> unat (size_ino (inodes fs_hello ! 2)) = prefix_sum fs_hello (inodes fs_hello ! 2)
   \<and> unat (size_ino (inodes fs_hello ! 2)) = 5"
proof -
  have s: "unat (size_ino (inodes fs_hello ! 2)) = 5"
    by (simp add: fs_hello_def)
  have p: "prefix_slots (inodes fs_hello ! 2) = [5]"
    by (simp add: fs_hello_def prefix_slots_def)
  have l: "length (direct_blocks (inodes fs0 ! nat 2)) = 12"
    by (simp add: fs0_def empty_inode_def no_slots_def)
  have d: "set (data_blocks fs0) = {empty_block}" "unat (size_blk empty_block) = 0"
    by (simp_all add: fs0_def empty_block_def)
  note t = set_data_block_size_mod [OF hello_run]
  from t s have "prefix_sum fs_hello (inodes fs_hello ! 2) mod 65536 = 5"
    by simp
  moreover from t p have "in_arena (data_blocks fs_hello) (sint (5 :: 32 word))"
    by simp
  moreover from t l d
  have "unat (size_ino (inodes fs_hello ! 2)) = prefix_sum fs_hello (inodes fs_hello ! 2)"
    by simp
  ultimately show ?thesis
    using s p l d by (simp add: hello_run)
qed

text \<open>
  C2 as stated fails: with \<open>data_size = -1\<close> the call returns, the block's size field
  (a \<open>c_size_t\<close>) holds 18446744073709551615 and the owner's size holds 65535.
\<close>

theorem set_data_block_size_counterexample:
  "(- 1 :: int) \<le> 1024
   \<and> set_data_block 5 [] (- 1) 2 0 fs0 = Returned () fs_neg
   \<and> unat (size_ino (inodes fs_neg ! 2)) = 65535
   \<and> prefix_sum fs_neg (inodes fs_neg ! 2) = 18446744073709551615"
  by (simp add: neg_run unat_consts)
     (simp add: fs_neg_def prefix_sum_def prefix_slots_def empty_inode_def unat_consts)

text \<open>
  C3, as the code has it. When \<open>free_blocks\<close> equals the number of free markers before
  a call of \<open>set_data_block\<close> that returns, it does so afterwards if the target block
  was marked free; if the target block was already marked used, the number of free
  markers stays and \<open>free_blocks\<close> is still decremented.
\<close>

theorem set_data_block_free_count:
  assumes ret: "set_data_block block_num data data_size parent_inode parent_block_num fs
                  = Returned u fs'"
    and ok: "free_count_ok fs"
  shows "(is_free (free_list fs ! nat block_num) \<longrightarrow> free_count_ok fs')
       \<and> (\<not> is_free (free_list fs ! nat block_num) \<longrightarrow>
            count_free fs' = count_free fs
            \<and> free_blocks (s_block fs') = free_blocks (s_block fs) - 1)"
proof -
  note r = set_data_block_Returned [OF ret]
  have n: "nat block_num < length (free_list fs)"
    using r(4) by (rule in_arena_nat)
  have z: "\<not> is_free (0 :: 8 word)"
    by (simp add: is_free_def)
  have fb: "free_blocks (s_block fs') = free_blocks (s_block fs) - 1"
    by (simp add: r(8))
  have "free_count_ok fs'" if f: "is_free (free_list fs ! nat block_num)"
  proof -
    have c: "Suc (count_free fs') = count_free fs"
      unfolding count_free_def r(7) using n f z by (rule filter_update_count)
    with ok have "unat (free_blocks (s_block fs)) = Suc (count_free fs')"
      by (simp add: free_count_ok_def)
    moreover from this have "free_blocks (s_block fs) \<noteq> 0"
      by (auto simp: unat_eq_0)
    then have "unat (free_blocks (s_block fs) - 1) = unat (free_blocks (s_block fs)) - 1"
      by (rule unat_minus_one)
    ultimately show ?thesis
      by (simp add: free_count_ok_def fb)
  qed
  moreover have "count_free fs' = count_free fs" if "\<not> is_free (free_list fs ! nat block_num)"
    unfolding count_free_def r(7) using that z by (rule filter_update_same)
  ultimately show ?thesis
    using fb by blast
qed

theorem set_data_block_free_count_witness:
  "set_data_block 5 hello 5 2 0 fs0 = Returned () fs_hello
   \<and> free_count_ok fs0 \<and> is_free (free_list fs0 ! 5) \<and> free_count_ok fs_hello
   \<and> set_data_block 5 hello 5 2 0 fs_hello = Returned () fs_hello2
   \<and> free_count_ok fs_hello \<and> \<not> is_free (free_list fs_hello ! 5)
   \<and> count_free fs_hello2 = count_free fs_hello
   \<and> free_blocks (s_block fs_hello2) = free_blocks (s_block fs_hello) - 1"
proof -
  have a: "free_count_ok fs0"
    by (simp add: free_count_ok_def count_free_def is_free_def fs0_def)
  have b: "is_free (free_list fs0 ! nat 5)"
    by (simp add: is_free_def fs0_def)
  have c: "\<not> is_free (free_list fs_hello ! nat 5)"
    by (simp add: is_free_def fs_hello_def)
  from set_data_block_free_count [OF hello_run a] b have d: "free_count_ok fs_hello"
    by blast
  from set_data_block_free_count [OF hello_run2 d] c
  have "count_free fs_hello2 = count_free fs_hello
      \<and> free_blocks (s_block fs_hello2) = free_blocks (s_block fs_hello) - 1"
    by blast
  with a b c d show ?thesis
    by (simp add: hello_run hello_run2)
qed

text \<open>
  C3 as stated fails: a second call on block 5 returns and leaves \<open>free_blocks = 14\<close>
  with 15 free markers.
\<close>

theorem set_data_block_free_count_counterexample:
  "free_count_ok fs0
   \<and> set_data_block 5 hello 5 2 0 fs0 = Returned () fs_hello
   \<and> free_count_ok fs_hello
   \<and> set_data_block 5 hello 5 2 0 fs_hello = Returned () fs_hello2
   \<and> \<not> free_count_ok fs_hello2"
  by (simp add: hello_run hello_run2)
     (simp add: free_count_ok_def count_free_def is_free_def fs0_def fs_hello_def fs_hello2_def)

text \<open>
  C4, as the code has it. A call of \<open>set_data_block\<close> that returns stores
  \<open>free_blocks - 1\<close> into the unsigned 32-bit field: the new value is the old one minus
  1 modulo 2^32 and is never negative, \<open>num_blocks\<close> is unchanged, and when the old
  value is not 0 the new one is exactly one less and stays at most \<open>num_blocks\<close> if the
  old one was.
\<close>

theorem set_data_block_free_blocks:
  assumes "set_data_block block_num data data_size parent_inode parent_block_num fs
             = Returned u fs'"
  shows "uint (free_blocks (s_block fs')) = (uint (free_blocks (s_block fs)) - 1) mod 2 ^ 32
       \<and> 0 \<le> uint (free_blocks (s_block fs'))
       \<and> num_blocks (s_block fs') = num_blocks (s_block fs)
       \<and> (free_blocks (s_block fs) \<noteq> 0 \<longrightarrow>
            uint (free_blocks (s_block fs')) = uint (free_blocks (s_block fs)) - 1
            \<and> (free_blocks (s_block fs) \<le> num_blocks (s_block fs) \<longrightarrow>
                 free_blocks (s_block fs') \<le> num_blocks (s_block fs')))
       \<and> (free_blocks (s_block fs) = 0 \<longrightarrow> uint (free_blocks (s_block fs')) = 4294967295)"
proof -
  note r = set_data_block_Returned [OF assms]
  have fb: "free_blocks (s_block fs') = free_blocks (s_block fs) - 1"
    and nb: "num_blocks (s_block fs') = num_blocks (s_block fs)"
    by (simp_all add: r(8))
  have m: "uint (free_blocks (s_block fs')) = (uint (free_blocks (s_block fs)) - 1) mod 2 ^ 32"
    unfolding fb by (simp add: uint_word_ariths)
  have d: "uint (free_blocks (s_block fs')) = uint (free_blocks (s_block fs)) - 1"
    if "free_blocks (s_block fs) \<noteq> 0"
  proof -
    from that have "uint (free_blocks (s_block fs)) \<noteq> 0"
      by (simp add: uint_0_iff)
    then have "0 < uint (free_blocks (s_block fs))"
      using uint_ge_0 [of "free_blocks (s_block fs)"] by linarith
    moreover have "uint (free_blocks (s_block fs)) < 2 ^ 32"
      using uint_bounded [of "free_blocks (s_block fs)"] by simp
    ultimately show ?thesis
      unfolding m by simp
  qed
  have l: "free_blocks (s_block fs') \<le> num_blocks (s_block fs')"
    if "free_blocks (s_block fs) \<noteq> 0" "free_blocks (s_block fs) \<le> num_blocks (s_block fs)"
    using d [OF that(1)] that(2) unfolding nb word_le_def by simp
  have z: "uint (free_blocks (s_block fs')) = 4294967295" if "free_blocks (s_block fs) = 0"
    unfolding m using that by simp
  from m nb d l z show ?thesis
    by simp
qed

theorem set_data_block_free_blocks_witness:
  "set_data_block 5 hello 5 2 0 fs0 = Returned () fs_hello
   \<and> free_blocks (s_block fs0) = 16 \<and> num_blocks (s_block fs0) = 16
   \<and> uint (free_blocks (s_block fs_hello)) = 15
   \<and> free_blocks (s_block fs_hello) \<le> num_blocks (s_block fs_hello)
   \<and> set_data_block 5 hello 5 2 0 fs_full = Returned () fs_wrapped
   \<and> free_blocks (s_block fs_full) = 0
   \<and> uint (free_blocks (s_block fs_wrapped)) = 4294967295"
proof -
  have a: "free_blocks (s_block fs0) = 16" "num_blocks (s_block fs0) = 16"
    by (simp_all add: fs0_def)
  have b: "free_blocks (s_block fs0) \<noteq> 0" "free_blocks (s_block fs0) \<le> num_blocks (s_block fs0)"
    by (simp_all add: fs0_def)
  have c: "free_blocks (s_block fs_full) = 0"
    by (simp add: fs_full_def)
  from set_data_block_free_blocks [OF hello_run] b
  have "uint (free_blocks (s_block fs_hello)) = uint (free_blocks (s_block fs0)) - 1"
    and "free_blocks (s_block fs_hello) \<le> num_blocks (s_block fs_hello)"
    by blast+
  moreover from set_data_block_free_blocks [OF full_run] c
  have "uint (free_blocks (s_block fs_wrapped)) = 4294967295"
    by blast
  ultimately show ?thesis
    using a c by (simp add: hello_run full_run)
qed

text \<open>
  C4 as stated fails: on a volume with every block used and \<open>free_blocks = 0\<close> the call
  returns and leaves \<open>free_blocks = 4294967295\<close>, above \<open>num_blocks = 16\<close>.
\<close>

theorem set_data_block_free_blocks_counterexample:
  "free_count_ok fs_full
   \<and> free_blocks (s_block fs_full) = 0
   \<and> set_data_block 5 hello 5 2 0 fs_full = Returned () fs_wrapped
   \<and> unat (free_blocks (s_block fs_wrapped)) = 4294967295
   \<and> unat (num_blocks (s_block fs_wrapped)) = 16
   \<and> \<not> free_blocks (s_block fs_wrapped) \<le> num_blocks (s_block fs_wrapped)"
  by (simp add: full_run)
     (simp add: fs_full_def fs_wrapped_def fs0_def free_count_ok_def count_free_def is_free_def
        unat_consts word_le_nat_alt)

text \<open>
  C5. The scenario of the claim: the root directory at inode 1 has its slot 0 empty, and
  \<open>mkdir(fs, dir2, 2, 1)\<close> is called without a slot. The constructor raises
  AttributeError on line 116, and nothing is written.
\<close>

theorem mkdir_scenario_raises:
  "length dir2 = 32
   \<and> sint (n_type (inodes fs0 ! 1)) = node_int directory
   \<and> sint (direct_blocks (inodes fs0 ! 1) ! 0) = - 1
   \<and> mkdir fs0 dir2 2 1 None = Raised AttributeError fs0"
  by (simp add: mkdir_def TInode_init_def fs0_def dir2_def default_blocks_def ptr_get_def
      in_arena_def empty_inode_def no_slots_def DIRECT_BLOCKS_COUNT_def)

text \<open>
  C6. \<open>mkdir(fs, dir2, 2, 1)\<close> initialises no inode. On the fresh volume it raises
  AttributeError on line 116 and inode 2 is still unallocated; on the volume where inode 2
  had block 5 attached in slot 0 it raises the same way and slot 0 of inode 2 still holds
  5, not -1.
\<close>

theorem mkdir_initialises_nothing:
  "length dir2 = 32
   \<and> sint (n_type (inodes fs0 ! 1)) = node_int directory
   \<and> mkdir fs0 dir2 2 1 None = Raised AttributeError fs0
   \<and> sint (n_type (inodes fs0 ! 2)) = node_int free_block
   \<and> set_data_block 5 hello 5 2 0 fs0 = Returned () fs_hello
   \<and> mkdir fs_hello dir2 2 1 None = Raised AttributeError fs_hello
   \<and> sint (direct_blocks (inodes fs_hello ! 2) ! 0) = 5"
proof -
  have a: "mkdir fs0 dir2 2 1 None = Raised AttributeError fs0"
    by (simp add: mkdir_def TInode_init_def fs0_def dir2_def default_blocks_def ptr_get_def
        in_arena_def empty_inode_def no_slots_def DIRECT_BLOCKS_COUNT_def)
  have b: "mkdir fs_hello dir2 2 1 None = Raised AttributeError fs_hello"
    by (simp add: mkdir_def TInode_init_def fs_hello_def dir2_def default_blocks_def ptr_get_def
        in_arena_def empty_inode_def no_slots_def DIRECT_BLOCKS_COUNT_def)
  have c: "length dir2 = 32" "sint (n_type (inodes fs0 ! 1)) = node_int directory"
    "sint (n_type (inodes fs0 ! 2)) = node_int free_block"
    by (simp_all add: fs0_def dir2_def empty_inode_def)
  have d: "sint (direct_blocks (inodes fs_hello ! 2) ! 0) = 5"
    by (simp add: fs_hello_def)
  from a b c d show ?thesis
    by (simp add: hello_run)
qed

text \<open>
  C7. No call of \<open>mkdir\<close> returns, whatever the filesystem and the arguments: there is
  no freshly created inode to check.
\<close>

theorem mkdir_never_returns:
  "mkdir fs nm idx par parent_direct_block \<noteq> Returned t fs'"
  by (auto simp: mkdir_def TInode_init_Some split: sum.splits)

text \<open>
  C8. The directory at inode 2 has one child in slot 0, whose parent is 2, and empty
  slots behind it. With parent verification the check looks slot 1 up as an inode, at
  index -1 outside the inode table; without it the check passes.
\<close>

theorem check_empty_slot_faults:
  "TInode_init fs_tree dir2 directory 1 None [3] = Inr (t_dir2\<lparr>t_idx := None\<rparr>)
   \<and> pin (t_dir2\<lparr>t_idx := None\<rparr>) 2 = Inr t_dir2
   \<and> sint (direct_blocks (inodes fs_tree ! 2) ! 0) = 3
   \<and> sint (parent (inodes fs_tree ! 3)) = 2
   \<and> sint (direct_blocks (inodes fs_tree ! 2) ! 1) = - 1
   \<and> check t_dir2 fs_tree None True = Inl MemoryFault
   \<and> check t_dir2 fs_tree None False = Inr ()"
proof -
  have n: "utf8_decode (s_get (name (inodes fs_tree ! 2))) = Inr dir2"
    by (simp add: fs_tree_def s_get_def dir2_bytes_def dir2_def utf8_decode_ascii push_def)
  have i: "TInode_init fs_tree dir2 directory 1 None [3] = Inr (t_dir2\<lparr>t_idx := None\<rparr>)"
    by (simp add: TInode_init_def fs_tree_def fs0_def dir2_def t_dir2_def ptr_get_def
        in_arena_def empty_inode_def DIRECT_BLOCKS_COUNT_def replicate_11)
  have p: "pin (t_dir2\<lparr>t_idx := None\<rparr>) 2 = Inr t_dir2"
    by (simp add: pin_def t_dir2_def)
  have s: "sint (direct_blocks (inodes fs_tree ! 2) ! 0) = 3"
    "sint (parent (inodes fs_tree ! 3)) = 2"
    "sint (direct_blocks (inodes fs_tree ! 2) ! 1) = - 1"
    by (simp_all add: fs_tree_def one_child_def empty_inode_def)
  have t: "check t_dir2 fs_tree None True = Inl MemoryFault"
    using n
    by (simp add: check_def check_links_def t_dir2_def ptr_get_def in_arena_def arr_get_def
        arr_index_def DIRECT_BLOCKS_COUNT_def upt_rec fs_tree_def fs0_def one_child_def
        empty_inode_def no_slots_def)
  have f: "check t_dir2 fs_tree None False = Inr ()"
    using n
    by (simp add: check_def t_dir2_def ptr_get_def in_arena_def arr_get_def list_get_def
        arr_index_def DIRECT_BLOCKS_COUNT_def upt_rec fs_tree_def fs0_def one_child_def
        empty_inode_def no_slots_def)
  from i p s t f show ?thesis by simp
qed

text \<open>
  C9. A name of 32 characters and the parent 1, in range and a directory: the
  constructor called with an index, as \<open>mkdir\<close> calls it, raises AttributeError.
\<close>

theorem TInode_init_scenario_raises:
  "length dir2 = 32
   \<and> 0 < (1 :: int) \<and> 1 < uint (num_blocks (s_block fs0))
   \<and> sint (n_type (inodes fs0 ! 1)) = node_int directory
   \<and> TInode_init fs0 dir2 directory 1 (Some 2) default_blocks = Inl AttributeError"
  by (simp add: TInode_init_def fs0_def dir2_def default_blocks_def ptr_get_def
      in_arena_def empty_inode_def no_slots_def DIRECT_BLOCKS_COUNT_def)

text \<open>
  C10. A call of \<open>set_data_block\<close> that returns leaves unchanged: \<open>num_blocks\<close>, the
  root, the lengths of the arenas, every data block and free-list entry other than the
  target's, every inode other than the owner, the target block's bytes from
  \<open>data_size\<close> on, the owner's type, name and parent, and every slot of the owner other
  than the designated one.
\<close>

theorem set_data_block_frame:
  assumes "set_data_block block_num data data_size parent_inode parent_block_num fs
             = Returned u fs'"
  shows "num_blocks (s_block fs') = num_blocks (s_block fs)
       \<and> root_node fs' = root_node fs
       \<and> length (inodes fs') = length (inodes fs)
       \<and> length (data_blocks fs') = length (data_blocks fs)
       \<and> length (free_list fs') = length (free_list fs)
       \<and> (\<forall>j. j \<noteq> nat block_num \<longrightarrow> data_blocks fs' ! j = data_blocks fs ! j)
       \<and> (\<forall>j. j \<noteq> nat block_num \<longrightarrow> free_list fs' ! j = free_list fs ! j)
       \<and> (\<forall>j. j \<noteq> nat parent_inode \<longrightarrow> inodes fs' ! j = inodes fs ! j)
       \<and> length (block (data_blocks fs' ! nat block_num))
            = length (block (data_blocks fs ! nat block_num))
       \<and> (\<forall>j. nat data_size \<le> j \<longrightarrow>
            block (data_blocks fs' ! nat block_num) ! j
              = block (data_blocks fs ! nat block_num) ! j)
       \<and> n_type (inodes fs' ! nat parent_inode) = n_type (inodes fs ! nat parent_inode)
       \<and> name (inodes fs' ! nat parent_inode) = name (inodes fs ! nat parent_inode)
       \<and> parent (inodes fs' ! nat parent_inode) = parent (inodes fs ! nat parent_inode)
       \<and> length (direct_blocks (inodes fs' ! nat parent_inode))
            = length (direct_blocks (inodes fs ! nat parent_inode))
       \<and> (\<exists>k. arr_index (length (direct_blocks (inodes fs ! nat parent_inode))) parent_block_num
                 = Inr k
              \<and> (\<forall>j. j \<noteq> k \<longrightarrow>
                   direct_blocks (inodes fs' ! nat parent_inode) ! j
                     = direct_blocks (inodes fs ! nat parent_inode) ! j))"
proof -
  note r = set_data_block_Returned [OF assms]
  have nb: "nat block_num < length (data_blocks fs)"
    using r(2) by (rule in_arena_nat)
  have ni: "nat parent_inode < length (inodes fs)"
    using r(3) by (rule in_arena_nat)
  from r(5) obtain B where
    lB: "length B = length (block (data_blocks fs ! nat block_num))"
    and fB: "\<forall>j. nat data_size \<le> j \<longrightarrow> B ! j = block (data_blocks fs ! nat block_num) ! j"
    and D: "data_blocks fs' = (data_blocks fs)[nat block_num :=
        (data_blocks fs ! nat block_num)\<lparr>size_blk := word_of_int data_size, block := B\<rparr>]"
    by blast
  from r(6) obtain k S where
    k: "arr_index (length (direct_blocks (inodes fs ! nat parent_inode))) parent_block_num = Inr k"
    and I: "inodes fs' = (inodes fs)[nat parent_inode := (inodes fs ! nat parent_inode)
        \<lparr>direct_blocks := (direct_blocks (inodes fs ! nat parent_inode))[k := word_of_int block_num],
         size_ino := S\<rparr>]"
    by blast
  have 1: "num_blocks (s_block fs') = num_blocks (s_block fs)"
    by (simp add: r(8))
  have 2: "root_node fs' = root_node fs"
    by (rule r(9))
  have 3: "length (inodes fs') = length (inodes fs)"
    "length (data_blocks fs') = length (data_blocks fs)"
    "length (free_list fs') = length (free_list fs)"
    by (simp_all add: I D r(7))
  have 4: "\<forall>j. j \<noteq> nat block_num \<longrightarrow> data_blocks fs' ! j = data_blocks fs ! j"
    by (simp add: D)
  have 5: "\<forall>j. j \<noteq> nat block_num \<longrightarrow> free_list fs' ! j = free_list fs ! j"
    by (simp add: r(7))
  have 6: "\<forall>j. j \<noteq> nat parent_inode \<longrightarrow> inodes fs' ! j = inodes fs ! j"
    by (simp add: I)
  have 7: "length (block (data_blocks fs' ! nat block_num))
      = length (block (data_blocks fs ! nat block_num))"
    using nb lB by (simp add: D)
  have 8: "\<forall>j. nat data_size \<le> j \<longrightarrow>
      block (data_blocks fs' ! nat block_num) ! j = block (data_blocks fs ! nat block_num) ! j"
    using nb fB by (simp add: D)
  have 9: "n_type (inodes fs' ! nat parent_inode) = n_type (inodes fs ! nat parent_inode)"
    "name (inodes fs' ! nat parent_inode) = name (inodes fs ! nat parent_inode)"
    "parent (inodes fs' ! nat parent_inode) = parent (inodes fs ! nat parent_inode)"
    "length (direct_blocks (inodes fs' ! nat parent_inode))
      = length (direct_blocks (inodes fs ! nat parent_inode))"
    using ni by (simp_all add: I)
  have 10: "\<forall>j. j \<noteq> k \<longrightarrow>
      direct_blocks (inodes fs' ! nat parent_inode) ! j
        = direct_blocks (inodes fs ! nat parent_inode) ! j"
    using ni by (simp add: I)
  from k 10 have 11: "\<exists>k. arr_index (length (direct_blocks (inodes fs ! nat parent_inode)))
         parent_block_num = Inr k
      \<and> (\<forall>j. j \<noteq> k \<longrightarrow>
           direct_blocks (inodes fs' ! nat parent_inode) ! j
             = direct_blocks (inodes fs ! nat parent_inode) ! j)"
    by blast
  from 1 2 3 4 5 6 7 8 9 11 show ?thesis
    by blast
qed

theorem set_data_block_frame_witness:
  "set_data_block 5 hello 5 2 0 fs0 = Returned () fs_hello
   \<and> num_blocks (s_block fs_hello) = num_blocks (s_block fs0)
   \<and> data_blocks fs_hello ! 6 = data_blocks fs0 ! 6
   \<and> free_list fs_hello ! 4 = free_list fs0 ! 4
   \<and> inodes fs_hello ! 1 = inodes fs0 ! 1
   \<and> block (data_blocks fs_hello ! 5) ! 5 = block (data_blocks fs0 ! 5) ! 5
   \<and> name (inodes fs_hello ! 2) = name (inodes fs0 ! 2)
   \<and> direct_blocks (inodes fs_hello ! 2) ! 1 = direct_blocks (inodes fs0 ! 2) ! 1"
proof -
  note f = set_data_block_frame [OF hello_run]
  have k: "arr_index (length (direct_blocks (inodes fs0 ! nat 2))) 0 = Inr 0"
    by (simp add: fs0_def empty_inode_def no_slots_def arr_index_def)
  from f have "num_blocks (s_block fs_hello) = num_blocks (s_block fs0)"
    by blast
  moreover from f have "data_blocks fs_hello ! 6 = data_blocks fs0 ! 6"
    by simp
  moreover from f have "free_list fs_hello ! 4 = free_list fs0 ! 4"
    by simp
  moreover from f have "inodes fs_hello ! 1 = inodes fs0 ! 1"
    by simp
  moreover from f have "block (data_blocks fs_hello ! 5) ! 5 = block (data_blocks fs0 ! 5) ! 5"
    by simp
  moreover from f have "name (inodes fs_hello ! 2) = name (inodes fs0 ! 2)"
    by simp
  moreover from f k have "direct_blocks (inodes fs_hello ! 2) ! 1 = direct_blocks (inodes fs0 ! 2) ! 1"
    by auto
  ultimately show ?thesis
    by (simp add: hello_run)
qed

end
